theory Spec2Isabelle
  imports Complex_Main "HOL-Library.Char_ord" "HOL-Library.List_Lexorder" "HOL-Library.Sublist"
begin

section \<open>Tabular data\<close>

text \<open>
  A pandas column (a Series) carries a dtype. The frames of this program come from
  \<^verbatim>\<open>pd.read_csv\<close> and \<^verbatim>\<open>pd.read_excel\<close>, which produce integer, float, boolean and
  object (text) columns and mark a missing cell with NaN. Integer and boolean columns
  cannot hold NaN; in a float or object column a missing cell is \<open>None\<close>.
  Python floats are idealised as reals.
\<close>

datatype column =
    IntCol "int list"
  | FloatCol "real option list"
  | BoolCol "bool list"
  | ObjCol "string option list"

fun col_len :: "column \<Rightarrow> nat" where
  "col_len (IntCol xs) = length xs"
| "col_len (FloatCol xs) = length xs"
| "col_len (BoolCol xs) = length xs"
| "col_len (ObjCol xs) = length xs"

text \<open>\<^verbatim>\<open>series.isna()\<close>: the missing-value mask.\<close>

fun isna :: "column \<Rightarrow> bool list" where
  "isna (IntCol xs) = map (\<lambda>_. False) xs"
| "isna (FloatCol xs) = map (\<lambda>x. x = None) xs"
| "isna (BoolCol xs) = map (\<lambda>_. False) xs"
| "isna (ObjCol xs) = map (\<lambda>x. x = None) xs"

definition na_count :: "column \<Rightarrow> nat" where
  "na_count c = length (filter id (isna c))"

definition isna_any :: "column \<Rightarrow> bool" where
  "isna_any c = list_ex id (isna c)"

definition isna_all :: "column \<Rightarrow> bool" where
  "isna_all c = list_all id (isna c)"

text \<open>\<^verbatim>\<open>pd.api.types.is_numeric_dtype\<close>: integer, float and boolean dtypes are numeric.\<close>

fun is_numeric_dtype :: "column \<Rightarrow> bool" where
  "is_numeric_dtype (ObjCol xs) = False"
| "is_numeric_dtype c = True"

text \<open>\<^verbatim>\<open>series.dtype == 'object'\<close>\<close>

fun is_object_dtype :: "column \<Rightarrow> bool" where
  "is_object_dtype (ObjCol xs) = True"
| "is_object_dtype c = False"

fun observed :: "'a option list \<Rightarrow> 'a list" where
  "observed [] = []"
| "observed (None # xs) = observed xs"
| "observed (Some x # xs) = x # observed xs"

text \<open>\<^verbatim>\<open>series.nunique()\<close>: the number of distinct values, NaN not counted.\<close>

fun nunique :: "column \<Rightarrow> nat" where
  "nunique (IntCol xs) = length (remdups xs)"
| "nunique (FloatCol xs) = length (remdups (observed xs))"
| "nunique (BoolCol xs) = length (remdups xs)"
| "nunique (ObjCol xs) = length (remdups (observed xs))"

text \<open>
  A DataFrame: the length of its index and its labelled columns in order. Labels may
  repeat in a frame built by selection, so the columns are an association list.
\<close>

record dataframe =
  index_len :: nat
  columns :: "(string \<times> column) list"

definition labels :: "dataframe \<Rightarrow> string list" where
  "labels df = map fst (columns df)"

text \<open>\<^verbatim>\<open>df.empty\<close>: some axis has length 0.\<close>

definition df_empty :: "dataframe \<Rightarrow> bool" where
  "df_empty df = (index_len df = 0 \<or> columns df = [])"

text \<open>
  The frames the readers produce: labels are distinct (the readers rename a repeated
  header) and every column is as long as the index.
\<close>

definition wf_df :: "dataframe \<Rightarrow> bool" where
  "wf_df df = (distinct (labels df) \<and> list_all (\<lambda>c. col_len c = index_len df) (map snd (columns df)))"

section \<open>Strings of the messages\<close>

definition quoted :: "string \<Rightarrow> string" where
  "quoted s = CHR 0x27 # s @ [CHR 0x27]"

text \<open>\<^verbatim>\<open>', '.join(xs)\<close>\<close>

fun join_comma :: "string list \<Rightarrow> string" where
  "join_comma [] = []"
| "join_comma [x] = x"
| "join_comma (x # y # ys) = x @ '', '' @ join_comma (y # ys)"

text \<open>
  An f-string that prints a number is kept as its fragments: the literal text, an
  integer, or a percentage printed with one decimal (\<^verbatim>\<open>{missing_pct:.1f}\<close>).
\<close>

datatype frag = Lit string | Num nat | Pct1f real

section \<open>utils.py: the validators the service calls\<close>

text \<open>\<^verbatim>\<open>utils.validate_dataset(df) -> (is_valid, error_message)\<close>\<close>

definition utils_validate_dataset :: "dataframe \<Rightarrow> bool \<times> string" where
  "utils_validate_dataset df =
     (if df_empty df then (False, ''Dataset is empty'')
      else if index_len df < 10 then (False, ''Dataset must have at least 10 rows'')
      else if length (columns df) < 2 then
        (False, ''Dataset must have at least 2 columns (features + target)'')
      else (True, ''''))"

text \<open>
  \<^verbatim>\<open>utils.validate_feature_target_selection(df, input_features, target_variable)\<close>.
  The loop over the features returns at the first one that is not a column.
\<close>

definition validate_feature_target_selection ::
  "dataframe \<Rightarrow> string list \<Rightarrow> string \<Rightarrow> bool \<times> string" where
  "validate_feature_target_selection df input_features target_variable =
     (if target_variable \<notin> set (labels df) then
        (False, ''Target variable '' @ quoted target_variable @ '' not found in dataset'')
      else case filter (\<lambda>f. f \<notin> set (labels df)) input_features of
        feature # _ \<Rightarrow> (False, ''Feature '' @ quoted feature @ '' not found in dataset'')
      | [] \<Rightarrow>
         if target_variable \<in> set input_features then
           (False, ''Target variable cannot be in input features'')
         else if length input_features < 1 then
           (False, ''At least one input feature must be selected'')
         else (True, ''''))"

section \<open>validation.py: the validators with suggestions\<close>

text \<open>\<^verbatim>\<open>df.isna().sum() / len(df) * 100\<close>, per column.\<close>

definition missing_pct :: "dataframe \<Rightarrow> column \<Rightarrow> real" where
  "missing_pct df c = real (na_count c) / real (index_len df) * 100"

text \<open>\<^verbatim>\<open>idxmax()\<close>: the first label whose value is the maximum.\<close>

fun idxmax :: "(string \<times> real) list \<Rightarrow> real \<Rightarrow> string" where
  "idxmax [] m = []"
| "idxmax ((n, v) # rest) m = (if v = m then n else idxmax rest m)"

text \<open>\<^verbatim>\<open>df.columns[df.columns.duplicated()]\<close>: every label that repeats an earlier one.\<close>

fun dup_from :: "'a list \<Rightarrow> 'a list \<Rightarrow> 'a list" where
  "dup_from seen [] = []"
| "dup_from seen (x # xs) =
     (if x \<in> set seen then x # dup_from seen xs else dup_from (x # seen) xs)"

definition duplicated_labels :: "string list \<Rightarrow> string list" where
  "duplicated_labels xs = dup_from [] xs"

text \<open>
  \<^verbatim>\<open>validation.validate_dataset(df) -> (is_valid, error_message, suggestion)\<close>.
  The maximum is taken over the columns, of which there is at least one once the
  emptiness check has passed.
\<close>

definition validation_validate_dataset ::
  "dataframe \<Rightarrow> bool \<times> frag list option \<times> string option" where
  "validation_validate_dataset df =
     (if df_empty df then
        (False, Some [Lit ''Dataset is empty''], Some ''Please upload a file with data rows'')
      else if index_len df < 10 then
        (False, Some [Lit ''Dataset has only '', Num (index_len df), Lit '' rows''],
         Some ''ML models need at least 10 samples. Please upload a larger dataset'')
      else if list_all isna_all (map snd (columns df)) then
        (False, Some [Lit ''All columns contain only missing values''],
         Some ''Please check your data file for valid entries'')
      else
        let pcts = map (\<lambda>(n, c). (n, missing_pct df c)) (columns df);
            missing = Max (set (map snd pcts))
        in if missing > 90 then
          (False, Some [Lit ''Column '', Lit (quoted (idxmax pcts missing)), Lit '' has '',
                        Pct1f missing, Lit ''% missing values''],
           Some ''Consider removing columns with too many missing values or use imputation'')
        else if length (columns df) < 2 then
          (False, Some [Lit ''Dataset must have at least 2 columns''],
           Some ''You need at least one input feature and one target variable'')
        else if duplicated_labels (labels df) \<noteq> [] then
          (False, Some [Lit ''Duplicate column names found: '',
                        Lit (join_comma (duplicated_labels (labels df)))],
           Some ''Please rename duplicate columns in your CSV file'')
        else if filter (sublist ''Unnamed'') (labels df) \<noteq> [] then
          (False, Some [Lit ''Found unnamed columns: '',
                        Lit (join_comma (filter (sublist ''Unnamed'') (labels df)))],
           Some ''Please add column headers to your CSV file'')
        else (True, None, None))"

text \<open>
  \<^verbatim>\<open>validation.validate_feature_selection(df, input_features, target_variable)\<close>.
  \<^verbatim>\<open>df[name]\<close> is the column under that label; the test
  \<^verbatim>\<open>target_variable not in df.columns\<close> is the lookup finding nothing.
\<close>

definition nunique_of :: "dataframe \<Rightarrow> string \<Rightarrow> nat" where
  "nunique_of df f = (case map_of (columns df) f of None \<Rightarrow> 0 | Some c \<Rightarrow> nunique c)"

definition numeric_of :: "dataframe \<Rightarrow> string \<Rightarrow> bool" where
  "numeric_of df f = (case map_of (columns df) f of None \<Rightarrow> False | Some c \<Rightarrow> is_numeric_dtype c)"

definition validate_feature_selection ::
  "dataframe \<Rightarrow> string list \<Rightarrow> string \<Rightarrow> bool \<times> frag list option \<times> string option" where
  "validate_feature_selection df input_features target_variable =
     (let missing_features = filter (\<lambda>f. f \<notin> set (labels df)) input_features in
      if missing_features \<noteq> [] then
        (False, Some [Lit ''Features not found: '', Lit (join_comma missing_features)],
         Some ''Please select valid column names from your dataset'')
      else case map_of (columns df) target_variable of
        None \<Rightarrow>
          (False, Some [Lit ''Target variable '', Lit (quoted target_variable), Lit '' not found''],
           Some ''Please select a valid target column'')
      | Some tcol \<Rightarrow>
          if target_variable \<in> set input_features then
            (False, Some [Lit ''Target variable cannot be an input feature''],
             Some ''Remove the target variable from your feature selection'')
          else if length input_features = 0 then
            (False, Some [Lit ''No input features selected''],
             Some ''Please select at least one feature column'')
          else if nunique tcol = 1 then
            (False, Some [Lit ''Target variable '', Lit (quoted target_variable),
                          Lit '' has only one unique value''],
             Some ''Target must have at least 2 different values for classification or range of values for regression'')
          else if (is_object_dtype tcol \<or> nunique tcol < 20) \<and> nunique tcol > 100 then
            (False, Some [Lit ''Target has '', Num (nunique tcol), Lit '' unique classes''],
             Some ''Too many classes for classification. Consider grouping categories or using regression'')
          else
            let numeric_features = filter (numeric_of df) input_features;
                zero_var_features = filter (\<lambda>f. nunique_of df f = 1) numeric_features
            in if zero_var_features \<noteq> [] then
              (False, Some [Lit ''Features with no variance: '', Lit (join_comma zero_var_features)],
               Some ''Remove constant features as they don't provide information'')
            else (True, None, None))"

section \<open>Exceptions, Python values and the library\<close>

text \<open>
  A raised exception is a value: its class name and its message. The program defines no
  exception class of its own; it raises \<^verbatim>\<open>ValueError\<close> itself and lets the errors
  of pandas, numpy and scikit-learn through. The messages of library errors are
  abbreviated.
\<close>

datatype exn = Exn (exn_class: string) (exn_msg: string)

definition bind_exn :: "exn + 'a \<Rightarrow> ('a \<Rightarrow> exn + 'b) \<Rightarrow> exn + 'b" where
  "bind_exn m f = (case m of Inl e \<Rightarrow> Inl e | Inr x \<Rightarrow> f x)"

text \<open>A \<^verbatim>\<open>for col in ...\<close> loop whose body may raise: the state reached is kept.\<close>

fun for_columns :: "(string \<Rightarrow> 's \<Rightarrow> exn + 's) \<Rightarrow> string list \<Rightarrow> 's \<Rightarrow> exn option \<times> 's" where
  "for_columns body [] s = (None, s)"
| "for_columns body (col # cols) s =
     (case body col s of Inl e \<Rightarrow> (Some e, s) | Inr s' \<Rightarrow> for_columns body cols s')"

fun map_exn :: "('a \<Rightarrow> exn + 'b) \<Rightarrow> 'a list \<Rightarrow> exn + 'b list" where
  "map_exn f [] = Inr []"
| "map_exn f (x # xs) =
     (case f x of Inl e \<Rightarrow> Inl e
      | Inr y \<Rightarrow> (case map_exn f xs of Inl e \<Rightarrow> Inl e | Inr ys \<Rightarrow> Inr (y # ys)))"

text \<open>The values a hyperparameter dictionary holds.\<close>

datatype pyval =
    PyNone | PyBool bool | PyInt int | PyFloat real | PyStr string
  | PyTuple "pyval list" | PyList "pyval list"

text \<open>\<^verbatim>\<open>hyperparameters.get(key, default)\<close>\<close>

definition hp_get :: "(string \<rightharpoonup> pyval) \<Rightarrow> string \<Rightarrow> pyval \<Rightarrow> pyval" where
  "hp_get hp k d = (case hp k of None \<Rightarrow> d | Some v \<Rightarrow> v)"

text \<open>
  The estimators \<^verbatim>\<open>train_model\<close> constructs, each with the arguments the program
  passes it (\<^verbatim>\<open>random_state=42\<close> is a constant of the constructor calls).
\<close>

datatype estimator =
    LogisticRegression (max_iter: pyval)
  | LinearRegression
  | DecisionTreeClassifier (max_depth: pyval) (min_samples_split: pyval)
  | DecisionTreeRegressor (max_depth: pyval) (min_samples_split: pyval)
  | RandomForestClassifier (n_estimators: pyval) (max_depth: pyval)
  | RandomForestRegressor (n_estimators: pyval) (max_depth: pyval)
  | SVC (svm_C: pyval) (kernel: pyval)
  | SVR (svm_C: pyval) (kernel: pyval)
  | KNeighborsClassifier (n_neighbors: pyval)
  | KNeighborsRegressor (n_neighbors: pyval)
  | MLPClassifier (hidden_layer_sizes: pyval) (max_iter: pyval)
  | MLPRegressor (hidden_layer_sizes: pyval) (max_iter: pyval)

text \<open>
  What fitting adds to an estimator object: the attributes \<^verbatim>\<open>feature_importances_\<close>
  and \<^verbatim>\<open>coef_\<close> where the algorithm has them (a coefficient array is one- or
  two-dimensional), and its \<^verbatim>\<open>predict\<close>.
\<close>

datatype coef = Coef1 "real list" | Coef2 "real list list"

record fitted =
  importances_attr :: "real list option"
  coef_attr :: "coef option"
  predict :: "dataframe \<Rightarrow> exn + column"

text \<open>
  The routines of scikit-learn and numpy that learn, draw the random partition or
  compute a score are parameters of the model: no property below depends on what they
  compute, only on where the program calls them and with what.
  \<^verbatim>\<open>shuffle_split\<close> is the partitioning of \<^verbatim>\<open>train_test_split\<close> once its
  arguments are validated: seed, features, target, test fraction and the
  \<^verbatim>\<open>stratify\<close> argument. The score functions take the averaging mode where the
  program passes one (\<^verbatim>\<open>zero_division=0\<close> is a constant of the calls).
\<close>

record sklearn =
  fit :: "estimator \<Rightarrow> dataframe \<Rightarrow> column \<Rightarrow> exn + fitted"
  shuffle_split :: "nat \<Rightarrow> dataframe \<Rightarrow> column \<Rightarrow> real \<Rightarrow> column option
                    \<Rightarrow> exn + (dataframe \<times> dataframe \<times> column \<times> column)"
  accuracy_score :: "column \<Rightarrow> column \<Rightarrow> exn + real"
  precision_score :: "column \<Rightarrow> column \<Rightarrow> string \<Rightarrow> exn + real"
  recall_score :: "column \<Rightarrow> column \<Rightarrow> string \<Rightarrow> exn + real"
  f1_score :: "column \<Rightarrow> column \<Rightarrow> string \<Rightarrow> exn + real"
  mean_squared_error :: "column \<Rightarrow> column \<Rightarrow> exn + real"
  mean_absolute_error :: "column \<Rightarrow> column \<Rightarrow> exn + real"
  r2_score :: "column \<Rightarrow> column \<Rightarrow> exn + real"
  np_std :: "column \<Rightarrow> exn + real"

section \<open>The pipeline object and the store of frames\<close>

text \<open>
  DataFrames are mutable objects: \<^verbatim>\<open>X[col] = ...\<close> changes the frame every reference
  to it sees. Frames therefore live in a store, a reference is an index into it, and
  \<^verbatim>\<open>.copy()\<close>, a selection and a constructor call allocate a new frame at its end.
\<close>

type_synonym ref = nat
type_synonym heap = "dataframe list"

definition alloc :: "dataframe \<Rightarrow> heap \<Rightarrow> ref \<times> heap" where
  "alloc f h = (length h, h @ [f])"

datatype scaler_kind = StandardScaler | MinMaxScaler

text \<open>
  A scaler object: its kind and, once fitted, a pair of parameters per column (mean and
  scale, or minimum and range); a column with no observed value has none.
\<close>

record scaler =
  scaler_kind :: scaler_kind
  scaler_params :: "(real \<times> real) option list option"

record pipeline =
  scaler :: "scaler option"
  label_encoders :: "string \<rightharpoonup> string list"
  feature_names :: "string list"
  target_name :: "string option"
  model :: "(estimator \<times> fitted option) option"
  X_train :: "dataframe option"
  X_test :: "dataframe option"
  y_train :: "column option"
  y_test :: "column option"
  y_test_pred :: "column option"
  y_test_actual :: "column option"
  original_df :: "ref option"

text \<open>\<^verbatim>\<open>MLPipeline()\<close>; the service sets \<^verbatim>\<open>original_df\<close> after construction.\<close>

definition new_pipeline :: pipeline where
  "new_pipeline =
     \<lparr>scaler = None, label_encoders = Map.empty, feature_names = [], target_name = None,
      model = None, X_train = None, X_test = None, y_train = None, y_test = None,
      y_test_pred = None, y_test_actual = None, original_df = None\<rparr>"

record config =
  handle_missing :: bool
  missing_strategy :: string
  encode_categories :: bool
  standardization :: bool
  normalization :: bool

section \<open>Frame access\<close>

text \<open>\<^verbatim>\<open>df[names]\<close> with a list of labels: a new frame; \<^verbatim>\<open>KeyError\<close> when a label is absent.\<close>

definition select_columns :: "dataframe \<Rightarrow> string list \<Rightarrow> exn + dataframe" where
  "select_columns df names =
     (case filter (\<lambda>f. f \<notin> set (labels df)) names of
        [] \<Rightarrow> Inr \<lparr>index_len = index_len df,
                 columns = concat (map (\<lambda>f. filter (\<lambda>(n, c). n = f) (columns df)) names)\<rparr>
      | m # ms \<Rightarrow> Inl (Exn ''KeyError'' (join_comma (m # ms))))"

text \<open>
  \<^verbatim>\<open>df[name]\<close> with one label: the column as a Series, or, under a repeated label, a
  DataFrame of the columns that carry it; \<^verbatim>\<open>KeyError\<close> when no column does.
\<close>

datatype selection = Series column | Frame

definition select :: "dataframe \<Rightarrow> string \<Rightarrow> exn + selection" where
  "select df name =
     (case filter (\<lambda>(n, c). n = name) (columns df) of
        [] \<Rightarrow> Inl (Exn ''KeyError'' name)
      | [(n, c)] \<Rightarrow> Inr (Series c)
      | _ \<Rightarrow> Inr Frame)"

text \<open>
  \<^verbatim>\<open>X[col]\<close> in the two loops, where the program goes on as with a Series: on a
  DataFrame the truth test of \<^verbatim>\<open>.isna().any()\<close> and the label encoder both raise
  \<^verbatim>\<open>ValueError\<close>, before anything is assigned.
\<close>

definition getitem :: "dataframe \<Rightarrow> string \<Rightarrow> exn + column" where
  "getitem df name =
     bind_exn (select df name) (\<lambda>s.
       case s of
         Series c \<Rightarrow> Inr c
       | Frame \<Rightarrow> Inl (Exn ''ValueError'' ''a repeated label selects a DataFrame, not a Series''))"

text \<open>\<^verbatim>\<open>df[name] = values\<close>: the values must be as long as the index.\<close>

definition setitem :: "dataframe \<Rightarrow> string \<Rightarrow> column \<Rightarrow> exn + dataframe" where
  "setitem df name v =
     (if col_len v \<noteq> index_len df then
        Inl (Exn ''ValueError'' ''Length of values does not match length of index'')
      else if name \<in> set (labels df) then
        Inr (df\<lparr>columns := map (\<lambda>(n, c). if n = name then (n, v) else (n, c)) (columns df)\<rparr>)
      else Inr (df\<lparr>columns := columns df @ [(name, v)]\<rparr>))"

section \<open>Imputation, encoding and scaling\<close>

definition np_mean :: "real list \<Rightarrow> real" where
  "np_mean xs = sum_list xs / real (length xs)"

definition np_median :: "real list \<Rightarrow> real" where
  "np_median xs =
     (let s = sort xs; n = length s
      in if even n then (s ! (n div 2 - 1) + s ! (n div 2)) / 2 else s ! (n div 2))"

text \<open>The most frequent value, the smallest one among equally frequent values.\<close>

definition most_frequent :: "'a::linorder list \<Rightarrow> 'a" where
  "most_frequent xs =
     (let m = Max (set (map (count_list xs) xs))
      in Min (set (filter (\<lambda>x. count_list xs x = m) xs)))"

definition fill_na :: "'a \<Rightarrow> 'a option list \<Rightarrow> 'a option list" where
  "fill_na v xs = map (\<lambda>x. case x of None \<Rightarrow> Some v | Some a \<Rightarrow> Some a) xs"

text \<open>
  \<^verbatim>\<open>SimpleImputer(strategy=strategy).fit_transform(X[[col]]).ravel()\<close> on one column.
  The statistic is computed from the observed values. A column with no observed value
  is dropped from the output (except under the \<^verbatim>\<open>constant\<close> strategy), so the
  flattened result is empty. The three statistics are applied to non-empty lists only.
\<close>

definition simple_imputer :: "string \<Rightarrow> column \<Rightarrow> exn + column" where
  "simple_imputer strategy c =
     (if strategy \<notin> set [''mean'', ''median'', ''most_frequent'', ''constant''] then
        Inl (Exn ''ValueError'' ''The strategy parameter of SimpleImputer is invalid'')
      else case c of
        FloatCol xs \<Rightarrow>
          if strategy = ''constant'' then Inr (FloatCol (fill_na 0 xs))
          else if observed xs = [] then Inr (FloatCol [])
          else Inr (FloatCol (fill_na
                 (if strategy = ''mean'' then np_mean (observed xs)
                  else if strategy = ''median'' then np_median (observed xs)
                  else most_frequent (observed xs)) xs))
      | ObjCol xs \<Rightarrow>
          if strategy = ''mean'' \<or> strategy = ''median'' then
            Inl (Exn ''ValueError'' ''Cannot use this strategy with non-numeric data'')
          else if strategy = ''constant'' then Inr (ObjCol (fill_na ''missing_value'' xs))
          else if observed xs = [] then Inr (ObjCol [])
          else Inr (ObjCol (fill_na (most_frequent (observed xs)) xs))
      | IntCol xs \<Rightarrow> Inr (FloatCol (map (\<lambda>i. Some (real_of_int i)) xs))
      | BoolCol xs \<Rightarrow> Inr (FloatCol (map (\<lambda>b. Some (if b then 1 else 0)) xs)))"

text \<open>The body of the imputation loop, for one label of \<^verbatim>\<open>X.columns\<close>.\<close>

definition impute_step :: "string \<Rightarrow> string \<Rightarrow> dataframe \<Rightarrow> exn + dataframe" where
  "impute_step strategy col X =
     bind_exn (getitem X col) (\<lambda>c.
       if isna_any c then
         bind_exn (simple_imputer (if is_numeric_dtype c then strategy else ''most_frequent'') c)
           (\<lambda>v. setitem X col v)
       else Inr X)"

text \<open>\<^verbatim>\<open>series.astype(str)\<close> on an object column: NaN becomes the text \<^verbatim>\<open>nan\<close>.\<close>

definition astype_str :: "string option list \<Rightarrow> string list" where
  "astype_str xs = map (\<lambda>x. case x of None \<Rightarrow> ''nan'' | Some s \<Rightarrow> s) xs"

fun index_of :: "'a list \<Rightarrow> 'a \<Rightarrow> nat" where
  "index_of [] x = 0"
| "index_of (y # ys) x = (if x = y then 0 else Suc (index_of ys x))"

text \<open>
  \<^verbatim>\<open>LabelEncoder().fit_transform(values)\<close>: the classes are the sorted distinct values,
  the code of a value is its position among them. The encoder object is its classes.
\<close>

definition le_fit_transform :: "string list \<Rightarrow> string list \<times> int list" where
  "le_fit_transform xs =
     (let classes = sort (remdups xs) in (classes, map (\<lambda>s. int (index_of classes s)) xs))"

text \<open>The body of the feature-encoding loop.\<close>

definition encode_step ::
  "string \<Rightarrow> dataframe \<times> (string \<rightharpoonup> string list) \<Rightarrow> exn + dataframe \<times> (string \<rightharpoonup> string list)" where
  "encode_step col s =
     (case s of (X, encs) \<Rightarrow>
        bind_exn (getitem X col) (\<lambda>c.
          case c of
            ObjCol xs \<Rightarrow>
              (case le_fit_transform (astype_str xs) of (classes, codes) \<Rightarrow>
                 bind_exn (setitem X col (IntCol codes)) (\<lambda>X'. Inr (X', encs(col \<mapsto> classes))))
          | _ \<Rightarrow> Inr (X, encs)))"

text \<open>
  The conversion of a column to floats when a scaler reads the frame. A text cell does
  not convert (a column whose every cell reads as a number is a numeric column already
  when the readers build the frame).
\<close>

fun to_float :: "column \<Rightarrow> exn + real option list" where
  "to_float (IntCol xs) = Inr (map (\<lambda>i. Some (real_of_int i)) xs)"
| "to_float (FloatCol xs) = Inr xs"
| "to_float (BoolCol xs) = Inr (map (\<lambda>b. Some (if b then 1 else 0)) xs)"
| "to_float (ObjCol xs) =
     (if observed xs = [] then Inr (map (\<lambda>_. None) xs)
      else Inl (Exn ''ValueError'' ''could not convert string to float''))"

text \<open>
  Fitting a scaler on one column, from its observed values: mean and standard deviation
  (population), or minimum and range; a zero scale is replaced by 1.
\<close>

definition scaler_fit :: "scaler_kind \<Rightarrow> real option list \<Rightarrow> (real \<times> real) option" where
  "scaler_fit k xs =
     (case observed xs of
        [] \<Rightarrow> None
      | v # vs \<Rightarrow>
          (case k of
             StandardScaler \<Rightarrow>
               let m = np_mean (v # vs);
                   s = sqrt (np_mean (map (\<lambda>x. (x - m)\<^sup>2) (v # vs)))
               in Some (m, if s = 0 then 1 else s)
           | MinMaxScaler \<Rightarrow>
               let lo = Min (set (v # vs)); r = Max (set (v # vs)) - lo
               in Some (lo, if r = 0 then 1 else r)))"

definition scaler_transform :: "(real \<times> real) option \<Rightarrow> real option list \<Rightarrow> real option list" where
  "scaler_transform p xs =
     (case p of
        None \<Rightarrow> map (\<lambda>_. None) xs
      | Some (a, b) \<Rightarrow> map (map_option (\<lambda>v. (v - a) / b)) xs)"

text \<open>\<^verbatim>\<open>scaler.fit_transform(X)\<close>: the fitted parameters and the scaled columns.\<close>

definition fit_transform ::
  "scaler_kind \<Rightarrow> dataframe \<Rightarrow> exn + (real \<times> real) option list \<times> real option list list" where
  "fit_transform k X =
     bind_exn (map_exn to_float (map snd (columns X))) (\<lambda>cols.
       if index_len X = 0 then Inl (Exn ''ValueError'' ''Found array with 0 sample(s)'')
       else if cols = [] then Inl (Exn ''ValueError'' ''Found array with 0 feature(s)'')
       else let ps = map (scaler_fit k) cols in Inr (ps, map2 scaler_transform ps cols))"

section \<open>MLPipeline.preprocess_data\<close>

text \<open>\<^verbatim>\<open>if config.get('handle_missing', False): for col in X.columns: ...\<close>\<close>

definition impute_missing :: "config \<Rightarrow> heap \<Rightarrow> ref \<Rightarrow> exn option \<times> heap" where
  "impute_missing cfg h X =
     (if handle_missing cfg then
        (case for_columns (impute_step (missing_strategy cfg)) (labels (h ! X)) (h ! X) of
           (e, X') \<Rightarrow> (e, h[X := X']))
      else (None, h))"

text \<open>\<^verbatim>\<open>if config.get('encode_categories', False): for col in X.columns: ...\<close>\<close>

definition encode_features :: "config \<Rightarrow> pipeline \<Rightarrow> heap \<Rightarrow> ref \<Rightarrow> exn option \<times> pipeline \<times> heap" where
  "encode_features cfg self h X =
     (if encode_categories cfg then
        (case for_columns encode_step (labels (h ! X)) (h ! X, label_encoders self) of
           (e, X', encs) \<Rightarrow> (e, self\<lparr>label_encoders := encs\<rparr>, h[X := X']))
      else (None, self, h))"

text \<open>
  \<^verbatim>\<open>if not pd.api.types.is_numeric_dtype(y): ...\<close>. A DataFrame (the target label
  is repeated) is not of numeric dtype, and the encoder refuses it.
\<close>

definition encode_target :: "pipeline \<Rightarrow> string \<Rightarrow> selection \<Rightarrow> (exn + column) \<times> pipeline" where
  "encode_target self target_variable y =
     (case y of
        Series (ObjCol xs) \<Rightarrow>
          (case le_fit_transform (astype_str xs) of (classes, codes) \<Rightarrow>
             (Inr (IntCol codes),
              self\<lparr>label_encoders := (label_encoders self)(target_variable \<mapsto> classes)\<rparr>))
      | Series c \<Rightarrow> (Inr c, self)
      | Frame \<Rightarrow> (Inl (Exn ''ValueError'' ''y should be a 1d array''), self))"

text \<open>
  \<^verbatim>\<open>self.scaler = Scaler(); X = pd.DataFrame(self.scaler.fit_transform(X), ...)\<close>:
  the scaler is stored before it is fitted, and the scaled frame is a new object.
\<close>

definition scale_with ::
  "scaler_kind \<Rightarrow> pipeline \<Rightarrow> heap \<Rightarrow> ref \<Rightarrow> (exn + ref) \<times> pipeline \<times> heap" where
  "scale_with k self h X =
     (case fit_transform k (h ! X) of
        Inl e \<Rightarrow> (Inl e, self\<lparr>scaler := Some \<lparr>scaler_kind = k, scaler_params = None\<rparr>\<rparr>, h)
      | Inr (ps, cols) \<Rightarrow>
          (case alloc \<lparr>index_len = index_len (h ! X),
                       columns = zip (labels (h ! X)) (map FloatCol cols)\<rparr> h of
             (X', h') \<Rightarrow>
               (Inr X', self\<lparr>scaler := Some \<lparr>scaler_kind = k, scaler_params = Some ps\<rparr>\<rparr>, h')))"

definition scale_features :: "config \<Rightarrow> pipeline \<Rightarrow> heap \<Rightarrow> ref \<Rightarrow> (exn + ref) \<times> pipeline \<times> heap" where
  "scale_features cfg self h X =
     (if standardization cfg then scale_with StandardScaler self h X
      else if normalization cfg then scale_with MinMaxScaler self h X
      else (Inr X, self, h))"

text \<open>
  \<^verbatim>\<open>preprocess_data(self, df, input_features, target_variable, config)\<close>. The result is
  the outcome (the reference of the feature frame and the target vector, or the
  exception), the pipeline and the store as the call leaves them. Python has no
  dangling reference; the model reports one rather than read an unspecified frame.
\<close>

definition preprocess_data ::
  "pipeline \<Rightarrow> heap \<Rightarrow> ref \<Rightarrow> string list \<Rightarrow> string \<Rightarrow> config
     \<Rightarrow> (exn + ref \<times> column) \<times> pipeline \<times> heap" where
  "preprocess_data self h df_ref input_features target_variable cfg =
     (if length h \<le> df_ref then (Inl (Exn ''ReferenceError'' ''no such frame''), self, h)
      else
        (case alloc (h ! df_ref) h of (df, h1) \<Rightarrow>
        (case select_columns (h1 ! df) input_features of
          Inl e \<Rightarrow> (Inl e, self, h1)
        | Inr sel \<Rightarrow>
            (case alloc sel h1 of (tmp, h2) \<Rightarrow>
            (case alloc (h2 ! tmp) h2 of (X, h3) \<Rightarrow>
            (case select (h3 ! df) target_variable of
              Inl e \<Rightarrow> (Inl e, self, h3)
            | Inr y \<Rightarrow>
                (let self1 = self\<lparr>feature_names := input_features,
                                  target_name := Some target_variable\<rparr>
                 in (case impute_missing cfg h3 X of
                   (Some e, h4) \<Rightarrow> (Inl e, self1, h4)
                 | (None, h4) \<Rightarrow>
                     (case encode_features cfg self1 h4 X of
                        (Some e, self2, h5) \<Rightarrow> (Inl e, self2, h5)
                      | (None, self2, h5) \<Rightarrow>
                          (case encode_target self2 target_variable y of
                             (Inl e, self3) \<Rightarrow> (Inl e, self3, h5)
                           | (Inr y', self3) \<Rightarrow>
                               (case scale_features cfg self3 h5 X of
                                  (Inl e, self4, h6) \<Rightarrow> (Inl e, self4, h6)
                                | (Inr X', self4, h6) \<Rightarrow> (Inr (X', y'), self4, h6))))))))))))"

section \<open>MLPipeline.split_data\<close>

definition value_counts :: "'a::linorder list \<Rightarrow> ('a \<times> nat) list" where
  "value_counts xs = map (\<lambda>v. (v, count_list xs v)) (sort (remdups xs))"

text \<open>
  The counts of \<^verbatim>\<open>np.unique(y, return_counts=True)\<close>, one per distinct value in
  sorted order. In a float array the NaNs form one value, sorted last. An object array
  that mixes text and NaN cannot be sorted; one of NaNs only keeps every NaN apart.
\<close>

fun np_unique_counts :: "column \<Rightarrow> exn + nat list" where
  "np_unique_counts (IntCol xs) = Inr (map snd (value_counts xs))"
| "np_unique_counts (FloatCol xs) =
     Inr (map snd (value_counts (observed xs)) @
          (if None \<in> set xs then [count_list xs None] else []))"
| "np_unique_counts (BoolCol xs) = Inr (map snd (value_counts xs))"
| "np_unique_counts (ObjCol xs) =
     (if None \<in> set xs then
        (if observed xs = [] then Inr (map (\<lambda>_. 1) xs)
         else Inl (Exn ''TypeError'' ''< not supported between instances of float and str''))
      else Inr (map snd (value_counts (observed xs))))"

text \<open>
  The stratification guard of \<^verbatim>\<open>split_data\<close>: \<^verbatim>\<open>class_counts.min()\<close> raises on
  an empty array.
\<close>

definition stratify_param :: "column \<Rightarrow> exn + column option" where
  "stratify_param y =
     bind_exn (np_unique_counts y) (\<lambda>class_counts.
       if class_counts = [] then
         Inl (Exn ''ValueError'' ''zero-size array to reduction operation minimum which has no identity'')
       else Inr (if length class_counts > 1 \<and> Min (set class_counts) \<ge> 2 then Some y else None))"

text \<open>
  \<^verbatim>\<open>train_test_split(X, y, test_size=..., random_state=..., stratify=...)\<close>: a float
  \<^verbatim>\<open>test_size\<close> must lie strictly between 0 and 1, or the library raises its
  \<^verbatim>\<open>ValueError\<close>; then it partitions.
\<close>

definition train_test_split ::
  "sklearn \<Rightarrow> dataframe \<Rightarrow> column \<Rightarrow> real \<Rightarrow> nat \<Rightarrow> column option
     \<Rightarrow> exn + (dataframe \<times> dataframe \<times> column \<times> column)" where
  "train_test_split L X y test_size random_state stratify =
     (if test_size \<le> 0 \<or> 1 \<le> test_size then
        Inl (Exn ''ValueError'' ''test_size must be a float in the range (0.0, 1.0)'')
      else shuffle_split L random_state X y test_size stratify)"

text \<open>
  \<^verbatim>\<open>split_data(self, X, y, test_size, random_state)\<close>: the four attributes are assigned
  together, after the partition has succeeded.
\<close>

definition split_data ::
  "sklearn \<Rightarrow> pipeline \<Rightarrow> dataframe \<Rightarrow> column \<Rightarrow> real \<Rightarrow> nat \<Rightarrow> exn option \<times> pipeline" where
  "split_data L self X y test_size random_state =
     (case stratify_param y of
        Inl e \<Rightarrow> (Some e, self)
      | Inr stratify \<Rightarrow>
          (case train_test_split L X y test_size random_state stratify of
             Inl e \<Rightarrow> (Some e, self)
           | Inr (Xtr, Xte, ytr, yte) \<Rightarrow>
               (None, self\<lparr>X_train := Some Xtr, X_test := Some Xte,
                            y_train := Some ytr, y_test := Some yte\<rparr>)))"

text \<open>The default of the \<^verbatim>\<open>random_state\<close> parameter, which the service never overrides.\<close>

definition default_random_state :: nat where
  "default_random_state = 42"

section \<open>MLPipeline._calculate_metrics\<close>

record test_metrics =
  tm_accuracy :: real
  tm_precision :: real
  tm_recall :: real
  tm_f1_score :: real

record regression_metrics =
  rm_mse :: real
  rm_rmse :: real
  rm_mae :: real
  rm_r2_score :: real

text \<open>The result dictionary, one field per key (\<^verbatim>\<open>train_metrics\<close> holds the accuracy only).\<close>

record results =
  res_test_metrics :: test_metrics
  res_train_accuracy :: real
  res_confusion_matrix :: "nat list list"
  res_regression_metrics :: "regression_metrics option"
  res_feature_importance :: "(string \<times> real) list option"
  res_n_train_samples :: nat
  res_n_test_samples :: nat
  res_n_features :: nat
  res_feature_names :: "string list"
  res_target_name :: "string option"
  res_predictions :: "(column \<times> column) option"

text \<open>
  \<^verbatim>\<open>sklearn.metrics.confusion_matrix(y_true, y_pred)\<close> with its default labels: the
  sorted distinct labels that occur in either argument; entry (i, j) counts the samples
  whose true label is the i-th and whose predicted label is the j-th.
\<close>

definition cm_labels :: "'a::linorder list \<Rightarrow> 'a list \<Rightarrow> 'a list" where
  "cm_labels yt yp = sort (remdups (yt @ yp))"

definition cm_count :: "'a list \<Rightarrow> 'a list \<Rightarrow> 'a \<Rightarrow> 'a \<Rightarrow> nat" where
  "cm_count yt yp t p = length (filter (\<lambda>(a, b). a = t \<and> b = p) (zip yt yp))"

definition cm_matrix :: "'a::linorder list \<Rightarrow> 'a list \<Rightarrow> nat list list" where
  "cm_matrix yt yp =
     (let ls = cm_labels yt yp in map (\<lambda>t. map (\<lambda>p. cm_count yt yp t p) ls) ls)"

text \<open>
  The labels of a column as the metric reads them: numbers (integers, booleans, and
  floats when every one is a whole number and none is missing) or text.
\<close>

fun num_labels :: "column \<Rightarrow> real list option" where
  "num_labels (IntCol xs) = Some (map real_of_int xs)"
| "num_labels (BoolCol xs) = Some (map (\<lambda>b. if b then 1 else 0) xs)"
| "num_labels (FloatCol xs) =
     (if None \<in> set xs then None
      else if list_all (\<lambda>v. real_of_int \<lfloor>v\<rfloor> = v) (observed xs) then Some (observed xs)
      else None)"
| "num_labels (ObjCol xs) = None"

fun str_labels :: "column \<Rightarrow> string list option" where
  "str_labels (ObjCol xs) = (if None \<in> set xs then None else Some (observed xs))"
| "str_labels c = None"

definition confusion_matrix :: "column \<Rightarrow> column \<Rightarrow> exn + nat list list" where
  "confusion_matrix y_true y_pred =
     (if col_len y_true \<noteq> col_len y_pred then
        Inl (Exn ''ValueError'' ''Found input variables with inconsistent numbers of samples'')
      else
        (case (num_labels y_true, num_labels y_pred) of
           (Some a, Some b) \<Rightarrow> Inr (cm_matrix a b)
         | _ \<Rightarrow>
             (case (str_labels y_true, str_labels y_pred) of
                (Some a, Some b) \<Rightarrow> Inr (cm_matrix a b)
              | _ \<Rightarrow> Inl (Exn ''ValueError'' ''the label types are not supported or are mixed''))))"

text \<open>An attribute of \<^verbatim>\<open>self\<close> that is still \<^verbatim>\<open>None\<close> where an array is expected.\<close>

definition required :: "'a option \<Rightarrow> exn + 'a" where
  "required v =
     (case v of
        None \<Rightarrow> Inl (Exn ''TypeError'' ''Expected sequence or array-like, got NoneType'')
      | Some a \<Rightarrow> Inr a)"

text \<open>
  The feature importances: \<^verbatim>\<open>feature_importances_\<close> when the fitted model has it,
  else the absolute values of \<^verbatim>\<open>coef_\<close> (of its first row when two-dimensional),
  zipped with the feature names; else \<^verbatim>\<open>None\<close>.
\<close>

definition feature_importance_of ::
  "pipeline \<Rightarrow> exn + (string \<times> real) list option" where
  "feature_importance_of self =
     (case model self of
        Some (est, Some m) \<Rightarrow>
          (case importances_attr m of
             Some imp \<Rightarrow> Inr (Some (zip (feature_names self) imp))
           | None \<Rightarrow>
               (case coef_attr m of
                  Some (Coef2 []) \<Rightarrow> Inl (Exn ''IndexError'' ''index 0 is out of bounds'')
                | Some (Coef2 (row # rows)) \<Rightarrow> Inr (Some (zip (feature_names self) (map abs row)))
                | Some (Coef1 v) \<Rightarrow> Inr (Some (zip (feature_names self) (map abs v)))
                | None \<Rightarrow> Inr None))
      | _ \<Rightarrow> Inr None)"

definition classification_scores ::
  "sklearn \<Rightarrow> pipeline \<Rightarrow> column \<Rightarrow> column \<Rightarrow> exn + test_metrics \<times> real \<times> nat list list" where
  "classification_scores L self y_train_pred y_test_pred_arg =
     bind_exn (required (y_test self)) (\<lambda>yte.
     bind_exn (np_unique_counts yte) (\<lambda>counts.
     let average = (if length counts = 2 then ''binary'' else ''weighted'') in
     bind_exn (accuracy_score L yte y_test_pred_arg) (\<lambda>test_accuracy.
     bind_exn (precision_score L yte y_test_pred_arg average) (\<lambda>test_precision.
     bind_exn (recall_score L yte y_test_pred_arg average) (\<lambda>test_recall.
     bind_exn (f1_score L yte y_test_pred_arg average) (\<lambda>test_f1.
     bind_exn (required (y_train self)) (\<lambda>ytr.
     bind_exn (accuracy_score L ytr y_train_pred) (\<lambda>train_accuracy.
     bind_exn (confusion_matrix yte y_test_pred_arg) (\<lambda>cm.
       Inr (\<lparr>tm_accuracy = test_accuracy, tm_precision = test_precision,
             tm_recall = test_recall, tm_f1_score = test_f1\<rparr>,
            train_accuracy, cm))))))))))"

definition regression_scores ::
  "sklearn \<Rightarrow> pipeline \<Rightarrow> column \<Rightarrow> column
     \<Rightarrow> exn + test_metrics \<times> real \<times> regression_metrics" where
  "regression_scores L self y_train_pred y_test_pred_arg =
     bind_exn (required (y_test self)) (\<lambda>yte.
     bind_exn (mean_squared_error L yte y_test_pred_arg) (\<lambda>test_mse.
     let test_rmse = sqrt test_mse in
     bind_exn (mean_absolute_error L yte y_test_pred_arg) (\<lambda>test_mae.
     bind_exn (r2_score L yte y_test_pred_arg) (\<lambda>test_r2.
     bind_exn (required (y_train self)) (\<lambda>ytr.
     bind_exn (mean_squared_error L ytr y_train_pred) (\<lambda>train_mse.
     bind_exn (r2_score L ytr y_train_pred) (\<lambda>train_r2.
     bind_exn (np_std L yte) (\<lambda>std.
       Inr (\<lparr>tm_accuracy = max 0 test_r2, tm_precision = test_r2,
             tm_recall = 1 - test_mae / (std + 1 / 10 ^ 10), tm_f1_score = test_r2\<rparr>,
            max 0 train_r2,
            \<lparr>rm_mse = test_mse, rm_rmse = test_rmse, rm_mae = test_mae,
             rm_r2_score = test_r2\<rparr>)))))))))"

text \<open>
  \<^verbatim>\<open>_calculate_metrics(self, y_train_pred, y_test_pred, is_classification)\<close>. The
  regression branch fills the confusion matrix with the fixed 2 by 2 zero matrix.
\<close>

definition calculate_metrics ::
  "sklearn \<Rightarrow> pipeline \<Rightarrow> column \<Rightarrow> column \<Rightarrow> bool \<Rightarrow> exn + results" where
  "calculate_metrics L self y_train_pred y_test_pred_arg is_classification =
     bind_exn
       (if is_classification then
          bind_exn (classification_scores L self y_train_pred y_test_pred_arg)
            (\<lambda>(tm, train_acc, cm). Inr (tm, train_acc, cm, None))
        else
          bind_exn (regression_scores L self y_train_pred y_test_pred_arg)
            (\<lambda>(tm, train_acc, rm). Inr (tm, train_acc, [[0, 0], [0, 0]], Some rm)))
       (\<lambda>(tm, train_acc, cm, rm).
     bind_exn (feature_importance_of self) (\<lambda>importance.
     bind_exn (required (y_train self)) (\<lambda>ytr.
     bind_exn (required (y_test self)) (\<lambda>yte.
       Inr \<lparr>res_test_metrics = tm, res_train_accuracy = train_acc,
            res_confusion_matrix = cm, res_regression_metrics = rm,
            res_feature_importance = importance,
            res_n_train_samples = col_len ytr, res_n_test_samples = col_len yte,
            res_n_features = length (feature_names self),
            res_feature_names = feature_names self, res_target_name = target_name self,
            res_predictions = None\<rparr>))))"

section \<open>MLPipeline.train_model\<close>

text \<open>\<^verbatim>\<open>np.issubdtype(self.y_train.dtype, np.floating)\<close>\<close>

fun is_floating :: "column \<Rightarrow> bool" where
  "is_floating (FloatCol xs) = True"
| "is_floating c = False"

text \<open>
  The \<^verbatim>\<open>if\<close>/\<^verbatim>\<open>elif\<close> chain over \<^verbatim>\<open>model_type\<close>: the estimator constructed, or the
  \<^verbatim>\<open>ValueError\<close> of the final \<^verbatim>\<open>else\<close>.
\<close>

definition make_model :: "string \<Rightarrow> bool \<Rightarrow> (string \<rightharpoonup> pyval) \<Rightarrow> exn + estimator" where
  "make_model model_type is_classification hp =
     (if model_type = ''logistic'' \<or> model_type = ''linear'' then
        Inr (if is_classification then LogisticRegression (hp_get hp ''max_iter'' (PyInt 1000))
             else LinearRegression)
      else if model_type = ''decision_tree'' then
        Inr (if is_classification then
               DecisionTreeClassifier (hp_get hp ''max_depth'' PyNone)
                 (hp_get hp ''min_samples_split'' (PyInt 2))
             else
               DecisionTreeRegressor (hp_get hp ''max_depth'' PyNone)
                 (hp_get hp ''min_samples_split'' (PyInt 2)))
      else if model_type = ''random_forest'' then
        Inr (if is_classification then
               RandomForestClassifier (hp_get hp ''n_estimators'' (PyInt 100))
                 (hp_get hp ''max_depth'' PyNone)
             else
               RandomForestRegressor (hp_get hp ''n_estimators'' (PyInt 100))
                 (hp_get hp ''max_depth'' PyNone))
      else if model_type = ''svm'' then
        Inr (if is_classification then
               SVC (hp_get hp ''C'' (PyFloat 1)) (hp_get hp ''kernel'' (PyStr ''rbf''))
             else SVR (hp_get hp ''C'' (PyFloat 1)) (hp_get hp ''kernel'' (PyStr ''rbf'')))
      else if model_type = ''knn'' then
        Inr (if is_classification then KNeighborsClassifier (hp_get hp ''n_neighbors'' (PyInt 5))
             else KNeighborsRegressor (hp_get hp ''n_neighbors'' (PyInt 5)))
      else if model_type = ''neural_network'' then
        Inr (if is_classification then
               MLPClassifier (hp_get hp ''hidden_layer_sizes'' (PyTuple [PyInt 100]))
                 (hp_get hp ''max_iter'' (PyInt 500))
             else
               MLPRegressor (hp_get hp ''hidden_layer_sizes'' (PyTuple [PyInt 100]))
                 (hp_get hp ''max_iter'' (PyInt 500)))
      else Inl (Exn ''ValueError'' (''Unknown model type: '' @ model_type)))"

text \<open>
  \<^verbatim>\<open>is_classification\<close>: with \<^verbatim>\<open>self.y_train\<close> still \<^verbatim>\<open>None\<close> the count of distinct
  values is 1, and reading \<^verbatim>\<open>.dtype\<close> raises \<^verbatim>\<open>AttributeError\<close>.
\<close>

definition detect_classification :: "pipeline \<Rightarrow> exn + bool" where
  "detect_classification self =
     (case y_train self of
        None \<Rightarrow> Inl (Exn ''AttributeError'' ''NoneType object has no attribute dtype'')
      | Some ytr \<Rightarrow>
          bind_exn (np_unique_counts ytr) (\<lambda>counts.
            Inr (length counts < 50 \<and> \<not> is_floating ytr)))"

text \<open>\<^verbatim>\<open>self.model.fit(self.X_train, self.y_train)\<close> and \<^verbatim>\<open>self.model.predict(X)\<close>\<close>

definition fit_model :: "sklearn \<Rightarrow> estimator \<Rightarrow> pipeline \<Rightarrow> exn + fitted" where
  "fit_model L est self =
     (case (X_train self, y_train self) of
        (Some X, Some y) \<Rightarrow> fit L est X y
      | _ \<Rightarrow> Inl (Exn ''ValueError'' ''Expected 2D array, got scalar array instead''))"

definition predict_on :: "fitted \<Rightarrow> dataframe option \<Rightarrow> exn + column" where
  "predict_on m X =
     (case X of
        Some f \<Rightarrow> predict m f
      | None \<Rightarrow> Inl (Exn ''ValueError'' ''Expected 2D array, got scalar array instead''))"

text \<open>
  \<^verbatim>\<open>train_model(self, model_type, hyperparameters)\<close>: the outcome and the pipeline as
  the call leaves it. \<^verbatim>\<open>self.model\<close> is assigned when the estimator is constructed,
  before it is fitted.
\<close>

definition train_model ::
  "sklearn \<Rightarrow> pipeline \<Rightarrow> string \<Rightarrow> (string \<rightharpoonup> pyval) option \<Rightarrow> (exn + results) \<times> pipeline" where
  "train_model L self model_type hyperparameters =
     (let hp = (case hyperparameters of None \<Rightarrow> Map.empty | Some d \<Rightarrow> d) in
      case detect_classification self of
        Inl e \<Rightarrow> (Inl e, self)
      | Inr is_classification \<Rightarrow>
          (case make_model model_type is_classification hp of
             Inl e \<Rightarrow> (Inl e, self)
           | Inr est \<Rightarrow>
               (let self1 = self\<lparr>model := Some (est, None)\<rparr> in
                case fit_model L est self1 of
                  Inl e \<Rightarrow> (Inl e, self1)
                | Inr m \<Rightarrow>
                    (let self2 = self1\<lparr>model := Some (est, Some m)\<rparr> in
                     case predict_on m (X_train self2) of
                       Inl e \<Rightarrow> (Inl e, self2)
                     | Inr y_train_pred \<Rightarrow>
                         (case predict_on m (X_test self2) of
                            Inl e \<Rightarrow> (Inl e, self2)
                          | Inr y_pred \<Rightarrow>
                              (let self3 = self2\<lparr>y_test_pred := Some y_pred,
                                                  y_test_actual := y_test self2\<rparr> in
                               case calculate_metrics L self3 y_train_pred y_pred is_classification of
                                 Inl e \<Rightarrow> (Inl e, self3)
                               | Inr res \<Rightarrow>
                                   (case y_test self3 of
                                      None \<Rightarrow>
                                        (Inl (Exn ''TypeError'' ''NoneType object is not iterable''),
                                         self3)
                                    | Some yte \<Rightarrow>
                                        (Inr (res\<lparr>res_predictions := Some (yte, y_pred)\<rparr>),
                                         self3))))))))"

section \<open>app.py: the training request\<close>

record train_request =
  req_session_id :: string
  req_input_features :: "string list"
  req_target_variable :: string
  req_preprocessing :: config
  req_split_ratio :: real
  req_model_type :: string
  req_hyperparameters :: "(string \<rightharpoonup> pyval) option"

text \<open>A response: the results with status 200, or an error message with its status.\<close>

datatype response = Ok results | Error nat string

text \<open>
  The body of the \<^verbatim>\<open>try\<close> block after the selection has been validated: preprocess,
  split with \<^verbatim>\<open>test_size = (100 - split_ratio) / 100\<close>, train.
\<close>

definition run_training ::
  "sklearn \<Rightarrow> pipeline \<Rightarrow> heap \<Rightarrow> ref \<Rightarrow> train_request \<Rightarrow> (exn + results) \<times> pipeline \<times> heap" where
  "run_training L p h df req =
     (case preprocess_data p h df (req_input_features req) (req_target_variable req)
             (req_preprocessing req) of
        (Inl e, p1, h1) \<Rightarrow> (Inl e, p1, h1)
      | (Inr (X, y), p1, h1) \<Rightarrow>
          (let test_size = (100 - req_split_ratio req) / 100 in
           case split_data L p1 (h1 ! X) y test_size default_random_state of
             (Some e, p2) \<Rightarrow> (Inl e, p2, h1)
           | (None, p2) \<Rightarrow>
               (case train_model L p2 (req_model_type req) (req_hyperparameters req) of
                  (r, p3) \<Rightarrow> (r, p3, h1))))"

text \<open>
  The handler of \<^verbatim>\<open>/api/train\<close> once the request is parsed: the session lookup, the
  selection validator of \<^verbatim>\<open>utils.py\<close>, then the training; every exception becomes a
  response with status 500. Pipelines are shared objects, so the session map holds the
  pipeline as the handler leaves it.
\<close>

definition api_train ::
  "sklearn \<Rightarrow> (string \<rightharpoonup> pipeline) \<Rightarrow> heap \<Rightarrow> train_request
     \<Rightarrow> response \<times> (string \<rightharpoonup> pipeline) \<times> heap" where
  "api_train L pipelines h req =
     (case pipelines (req_session_id req) of
        None \<Rightarrow> (Error 400 ''Invalid session ID'', pipelines, h)
      | Some p \<Rightarrow>
          (case original_df p of
             None \<Rightarrow>
               (Error 500 ''Training failed: MLPipeline object has no attribute original_df'',
                pipelines, h)
           | Some df \<Rightarrow>
               if length h \<le> df then (Error 500 ''Training failed: no such frame'', pipelines, h)
               else
                 (case validate_feature_target_selection (h ! df) (req_input_features req)
                         (req_target_variable req) of
                    (False, error_msg) \<Rightarrow> (Error 400 error_msg, pipelines, h)
                  | (True, _) \<Rightarrow>
                      (case run_training L p h df req of
                         (Inl e, p', h') \<Rightarrow>
                           (Error 500 (''Training failed: '' @ exn_msg e),
                            pipelines(req_session_id req \<mapsto> p'), h')
                       | (Inr res, p', h') \<Rightarrow>
                           (Ok res, pipelines(req_session_id req \<mapsto> p'), h')))))"

text \<open>
  The handler of \<^verbatim>\<open>/api/upload\<close> once the file is read into a frame: the dataset
  validator of \<^verbatim>\<open>utils.py\<close>, then a new session whose pipeline refers to the frame.
  The session identifier, which the service makes from the number of sessions, is a
  parameter.
\<close>

definition api_upload ::
  "(string \<rightharpoonup> pipeline) \<Rightarrow> heap \<Rightarrow> string \<Rightarrow> dataframe
     \<Rightarrow> (string + string) \<times> (string \<rightharpoonup> pipeline) \<times> heap" where
  "api_upload pipelines h session_id df =
     (case utils_validate_dataset df of
        (False, error_msg) \<Rightarrow> (Inl error_msg, pipelines, h)
      | (True, _) \<Rightarrow>
          (case alloc df h of
             (r, h') \<Rightarrow>
               (Inr session_id, pipelines(session_id \<mapsto> new_pipeline\<lparr>original_df := Some r\<rparr>), h')))"

section \<open>Classes of a target vector\<close>

text \<open>The cells of a column as values of one type, a missing cell being a value too.\<close>

datatype cell = IntCell int | FloatCell "real option" | BoolCell bool | ObjCell "string option"

fun cells :: "column \<Rightarrow> cell list" where
  "cells (IntCol xs) = map IntCell xs"
| "cells (FloatCol xs) = map FloatCell xs"
| "cells (BoolCol xs) = map BoolCell xs"
| "cells (ObjCol xs) = map ObjCell xs"

section \<open>A stand-in library and sample data\<close>

text \<open>
  To run the model on concrete inputs the library parameter needs an instance. This one
  is deliberately plain: its learner predicts class 0 for every row, its partition puts
  the first rows in the test set, and its scores are the fraction of agreeing positions
  or the mean of a function of the differences. The theorems below hold for every
  instance; this one only shows that their hypotheses can be met.
\<close>

fun col_take :: "nat \<Rightarrow> column \<Rightarrow> column" where
  "col_take n (IntCol xs) = IntCol (take n xs)"
| "col_take n (FloatCol xs) = FloatCol (take n xs)"
| "col_take n (BoolCol xs) = BoolCol (take n xs)"
| "col_take n (ObjCol xs) = ObjCol (take n xs)"

fun col_drop :: "nat \<Rightarrow> column \<Rightarrow> column" where
  "col_drop n (IntCol xs) = IntCol (drop n xs)"
| "col_drop n (FloatCol xs) = FloatCol (drop n xs)"
| "col_drop n (BoolCol xs) = BoolCol (drop n xs)"
| "col_drop n (ObjCol xs) = ObjCol (drop n xs)"

definition rows_take :: "nat \<Rightarrow> dataframe \<Rightarrow> dataframe" where
  "rows_take n df =
     \<lparr>index_len = min n (index_len df), columns = map (\<lambda>(l, c). (l, col_take n c)) (columns df)\<rparr>"

definition rows_drop :: "nat \<Rightarrow> dataframe \<Rightarrow> dataframe" where
  "rows_drop n df =
     \<lparr>index_len = index_len df - n, columns = map (\<lambda>(l, c). (l, col_drop n c)) (columns df)\<rparr>"

definition demo_split ::
  "nat \<Rightarrow> dataframe \<Rightarrow> column \<Rightarrow> real \<Rightarrow> column option
     \<Rightarrow> exn + (dataframe \<times> dataframe \<times> column \<times> column)" where
  "demo_split seed X y test_size stratify =
     (let n_test = nat \<lceil>test_size * real (col_len y)\<rceil> in
      if col_len y \<le> n_test then
        Inl (Exn ''ValueError'' ''the resulting train set will be empty'')
      else Inr (rows_drop n_test X, rows_take n_test X, col_drop n_test y, col_take n_test y))"

definition demo_fit :: "estimator \<Rightarrow> dataframe \<Rightarrow> column \<Rightarrow> exn + fitted" where
  "demo_fit est X y =
     Inr \<lparr>importances_attr = None, coef_attr = None,
          predict = (\<lambda>f. Inr (IntCol (map (\<lambda>_. 0)
                       (case columns f of [] \<Rightarrow> [] | (l, c) # cs \<Rightarrow> cells c))))\<rparr>"

definition demo_agreement :: "column \<Rightarrow> column \<Rightarrow> exn + real" where
  "demo_agreement a b =
     (case (num_labels a, num_labels b) of
        (Some x, Some y) \<Rightarrow>
          if length x = length y \<and> x \<noteq> [] then
            Inr (real (length (filter (\<lambda>(u, v). u = v) (zip x y))) / real (length x))
          else Inl (Exn ''ValueError'' ''inconsistent or empty input'')
      | _ \<Rightarrow> Inl (Exn ''ValueError'' ''unsupported labels''))"

definition demo_mean_diff :: "(real \<Rightarrow> real) \<Rightarrow> column \<Rightarrow> column \<Rightarrow> exn + real" where
  "demo_mean_diff g a b =
     (case (num_labels a, num_labels b) of
        (Some x, Some y) \<Rightarrow>
          if length x = length y \<and> x \<noteq> [] then
            Inr (np_mean (map (\<lambda>(u, v). g (u - v)) (zip x y)))
          else Inl (Exn ''ValueError'' ''inconsistent or empty input'')
      | _ \<Rightarrow> Inl (Exn ''ValueError'' ''unsupported input''))"

definition demo_lib :: sklearn where
  "demo_lib =
     \<lparr>fit = demo_fit, shuffle_split = demo_split,
      accuracy_score = demo_agreement,
      precision_score = (\<lambda>a b average. demo_agreement a b),
      recall_score = (\<lambda>a b average. demo_agreement a b),
      f1_score = (\<lambda>a b average. demo_agreement a b),
      mean_squared_error = demo_mean_diff (\<lambda>d. d * d),
      mean_absolute_error = demo_mean_diff abs,
      r2_score = (\<lambda>a b. bind_exn (demo_mean_diff (\<lambda>d. d * d) a b) (\<lambda>m. Inr (1 - m))),
      np_std = (\<lambda>a. Inr 1)\<rparr>"

text \<open>Ten rows, two columns, one of them missing throughout.\<close>

definition frame_missing_column :: dataframe where
  "frame_missing_column =
     \<lparr>index_len = 10,
      columns = [(''x'', IntCol [1, 2, 3, 4, 5, 6, 7, 8, 9, 10]),
                 (''y'', FloatCol [None, None, None, None, None, None, None, None, None, None])]\<rparr>"

text \<open>Ten rows, a feature and a target that takes one value only.\<close>

definition frame_constant_target :: dataframe where
  "frame_constant_target =
     \<lparr>index_len = 10,
      columns = [(''x'', IntCol [1, 2, 3, 4, 5, 6, 7, 8, 9, 10]),
                 (''y'', IntCol [0, 0, 0, 0, 0, 0, 0, 0, 0, 0])]\<rparr>"

text \<open>A numeric and a text feature with a missing cell each, and a text target.\<close>

definition frame_people :: dataframe where
  "frame_people =
     \<lparr>index_len = 4,
      columns = [(''age'', FloatCol [Some 1, None, Some 3, Some 2]),
                 (''city'', ObjCol [Some ''b'', None, Some ''a'', Some ''b'']),
                 (''label'', ObjCol [Some ''yes'', Some ''no'', Some ''yes'', Some ''no''])]\<rparr>"

definition config_impute :: config where
  "config_impute =
     \<lparr>handle_missing = True, missing_strategy = ''mean'', encode_categories = True,
      standardization = False, normalization = True\<rparr>"

definition config_plain :: config where
  "config_plain =
     \<lparr>handle_missing = False, missing_strategy = ''mean'', encode_categories = False,
      standardization = False, normalization = False\<rparr>"

text \<open>Two target vectors of ten samples: five per class, and one class with a single sample.\<close>

definition target_balanced :: column where
  "target_balanced = IntCol [0, 1, 0, 1, 0, 1, 0, 1, 0, 1]"


text \<open>Ten rows, one feature and a two-class target.\<close>

definition frame_two_class :: dataframe where
  "frame_two_class =
     \<lparr>index_len = 10,
      columns = [(''x'', IntCol [1, 2, 3, 4, 5, 6, 7, 8, 9, 10]),
                 (''y'', IntCol [0, 1, 0, 1, 0, 1, 0, 1, 0, 1])]\<rparr>"

text \<open>A pipeline as \<^verbatim>\<open>split_data\<close> leaves it: two training rows, three test rows.\<close>

definition pipeline_after_split :: pipeline where
  "pipeline_after_split =
     new_pipeline\<lparr>feature_names := [''x''], target_name := Some ''y'',
       X_train := Some \<lparr>index_len = 2, columns = [(''x'', IntCol [7, 8])]\<rparr>,
       X_test := Some \<lparr>index_len = 3, columns = [(''x'', IntCol [4, 5, 6])]\<rparr>,
       y_train := Some (IntCol [0, 1]), y_test := Some (IntCol [1, 0, 0])\<rparr>"

text \<open>One session whose frame is the first of the store, and a request to train on it.\<close>

definition sessions_one :: "string \<rightharpoonup> pipeline" where
  "sessions_one = [''session_0'' \<mapsto> new_pipeline\<lparr>original_df := Some 0\<rparr>]"

definition request_tree :: train_request where
  "request_tree =
     \<lparr>req_session_id = ''session_0'', req_input_features = [''x''], req_target_variable = ''y'',
      req_preprocessing = config_plain, req_split_ratio = 70, req_model_type = ''decision_tree'',
      req_hyperparameters = None\<rparr>"

section \<open>Predicates of the statements\<close>

text \<open>\<^verbatim>\<open>df.isna().any().any()\<close>: some cell of the frame is missing.\<close>

definition df_isna_any :: "dataframe \<Rightarrow> bool" where
  "df_isna_any df = list_ex isna_any (map snd (columns df))"

text \<open>
  What it means for \<open>cm\<close> to be the confusion matrix of true labels \<open>a\<close> and predicted
  labels \<open>b\<close>: with the distinct labels of both in ascending order, the matrix is square
  of that size, entry (i, j) counts the samples whose true label is the i-th and whose
  predicted label is the j-th, and row i sums to the number of samples whose true label
  is the i-th.
\<close>

definition cm_of_labels :: "'a::linorder list \<Rightarrow> 'a list \<Rightarrow> nat list list \<Rightarrow> bool" where
  "cm_of_labels a b cm =
     (let ls = sort (remdups (a @ b)) in
      length cm = length ls \<and>
      (\<forall>i<length ls.
         length (cm ! i) = length ls \<and>
         sum_list (cm ! i) = count_list a (ls ! i) \<and>
         (\<forall>j<length ls.
            cm ! i ! j = length (filter (\<lambda>(t, p). t = ls ! i \<and> p = ls ! j) (zip a b)))))"


text \<open>The definitions that evaluating the model on a concrete input unfolds.\<close>

lemmas prep_defs = preprocess_data_def alloc_def select_columns_def select_def getitem_def setitem_def
  labels_def impute_missing_def impute_step_def simple_imputer_def encode_features_def
  encode_step_def encode_target_def scale_features_def scale_with_def fit_transform_def
  scaler_fit_def scaler_transform_def le_fit_transform_def astype_str_def fill_na_def
  most_frequent_def np_mean_def np_median_def isna_any_def bind_exn_def

lemmas demo_defs = demo_lib_def demo_mean_diff_def demo_agreement_def demo_fit_def
  demo_split_def rows_take_def rows_drop_def

lemmas metric_defs = calculate_metrics_def regression_scores_def classification_scores_def
  required_def feature_importance_of_def confusion_matrix_def cm_matrix_def cm_labels_def
  cm_count_def value_counts_def

lemmas train_defs = train_model_def detect_classification_def make_model_def fit_model_def
  predict_on_def hp_get_def split_data_def stratify_param_def train_test_split_def
  default_random_state_def

lemmas app_defs = api_train_def run_training_def validate_feature_target_selection_def

section \<open>Properties of the validators\<close>

lemma dup_from_nil: "dup_from seen xs = [] \<longleftrightarrow> distinct xs \<and> set xs \<inter> set seen = {}"
  by (induction xs arbitrary: seen) auto

lemma duplicated_labels_nil: "duplicated_labels xs = [] \<longleftrightarrow> distinct xs"
  by (simp add: duplicated_labels_def dup_from_nil)

lemma filter_nil_list_ex: "filter P xs \<noteq> [] \<longleftrightarrow> list_ex P xs"
  by (induction xs) auto

lemma Max_gt_list_ex:
  assumes "xs \<noteq> []"
  shows "(b::real) < Max (set xs) \<longleftrightarrow> list_ex (\<lambda>x. b < x) xs"
  using assms by (simp add: Max_gr_iff list_ex_iff)

lemma pcts_max:
  assumes "columns df \<noteq> []"
  shows "90 < Max (set (map snd (map (\<lambda>(n, c). (n, missing_pct df c)) (columns df))))
         \<longleftrightarrow> list_ex (\<lambda>c. 90 < missing_pct df c) (map snd (columns df))"
proof -
  have "map snd (map (\<lambda>(n, c). (n, missing_pct df c)) (columns df))
        = map (missing_pct df) (map snd (columns df))"
    by (induction "columns df") (auto simp: case_prod_beta)
  then show ?thesis
    using assms by (simp only: Max_gt_list_ex list_ex_iff) (auto simp: list_ex_iff Max_gr_iff)
qed

text \<open>
  The validator of \<^verbatim>\<open>validation.py\<close> rejects, with a suggestion, every frame that
  has fewer than 10 rows, fewer than 2 columns, a column more than 90% missing, a
  repeated label or a label containing \<^verbatim>\<open>Unnamed\<close>.
\<close>

lemma validation_validate_dataset_rejects:
  assumes "index_len df < 10 \<or> length (columns df) < 2
           \<or> list_ex (\<lambda>c. 90 < missing_pct df c) (map snd (columns df))
           \<or> \<not> distinct (labels df) \<or> list_ex (sublist ''Unnamed'') (labels df)"
  shows "\<exists>m s. validation_validate_dataset df = (False, Some m, Some s) \<and> s \<noteq> []"
proof (cases "columns df = []")
  case True
  then show ?thesis by (simp add: validation_validate_dataset_def df_empty_def)
next
  case False
  note pm = pcts_max [OF False]
  show ?thesis
    using assms False unfolding validation_validate_dataset_def Let_def pm
    by (auto simp: df_empty_def duplicated_labels_nil filter_nil_list_ex)
qed

text \<open>It accepts a frame free of those defects whose columns are as long as its index.\<close>

lemma validation_validate_dataset_accepts:
  assumes "10 \<le> index_len df" "2 \<le> length (columns df)"
    and "list_all (\<lambda>c. col_len c = index_len df \<and> missing_pct df c \<le> 90) (map snd (columns df))"
    and "distinct (labels df)" "list_all (\<lambda>n. \<not> sublist ''Unnamed'' n) (labels df)"
  shows "validation_validate_dataset df = (True, None, None)"
proof -
  from assms(2) have ne: "columns df \<noteq> []" by auto
  note pm = pcts_max [OF ne]
  obtain l c rest where cs: "columns df = (l, c) # rest"
    using ne by (cases "columns df") auto
  have notall: "\<not> list_all isna_all (map snd (columns df))"
  proof
    assume a: "list_all isna_all (map snd (columns df))"
    from a cs have "isna_all c" by simp
    then have "na_count c = col_len c"
      by (cases c) (auto simp: isna_all_def na_count_def list_all_iff filter_id_conv)
    moreover from assms(3) cs have "col_len c = index_len df" "missing_pct df c \<le> 90" by auto
    ultimately show False using assms(1) by (simp add: missing_pct_def)
  qed
  have nomax: "\<not> list_ex (\<lambda>c. 90 < missing_pct df c) (map snd (columns df))"
    using assms(3) by (auto simp: list_all_iff list_ex_iff)
  have nounnamed: "\<not> list_ex (sublist ''Unnamed'') (labels df)"
    using assms(5) by (auto simp: list_all_iff list_ex_iff)
  show ?thesis
    using assms(1,2,4) ne notall nomax nounnamed
    unfolding validation_validate_dataset_def Let_def pm
    by (simp add: df_empty_def duplicated_labels_nil filter_nil_list_ex)
qed

text \<open>
  The validator of \<^verbatim>\<open>utils.py\<close>, the one \<^verbatim>\<open>app.py\<close> imports, looks at the two
  sizes only.
\<close>

lemma utils_validate_dataset_valid:
  "fst (utils_validate_dataset df) \<longleftrightarrow> 10 \<le> index_len df \<and> 2 \<le> length (columns df)"
  by (auto simp: utils_validate_dataset_def df_empty_def)

text \<open>
  Claim C1: the dataset validator the service invokes rejects every dataset with fewer
  than 10 rows, fewer than 2 columns, a column more than 90% missing, duplicate column
  names or unnamed column headers, and accepts a well-formed dataset of 10 rows and 2
  columns.

  The service invokes \<^verbatim>\<open>validate_dataset\<close> of \<^verbatim>\<open>utils.py\<close>. On a frame of 10 rows
  and 2 columns whose column \<^verbatim>\<open>y\<close> is missing in every row it answers valid, and the
  upload handler opens a session for the frame; \<^verbatim>\<open>validate_dataset\<close> of
  \<^verbatim>\<open>validation.py\<close>, which the service never calls, rejects the same frame.
\<close>

theorem utils_validate_dataset_accepts_missing_column:
  "utils_validate_dataset frame_missing_column = (True, '''')
   \<and> fst (api_upload Map.empty [] ''session_0'' frame_missing_column) = Inr ''session_0''
   \<and> fst (validation_validate_dataset frame_missing_column) = False"
  by (simp add: utils_validate_dataset_def validation_validate_dataset_def
      frame_missing_column_def api_upload_def alloc_def
      df_empty_def isna_all_def missing_pct_def na_count_def Let_def)

text \<open>
  The selection validator of \<^verbatim>\<open>validation.py\<close> fails, with a non-empty suggestion,
  whenever the target column has exactly one distinct value.
\<close>

lemma validate_feature_selection_single_valued_target:
  assumes "map_of (columns df) target_variable = Some c" "nunique c = 1"
  shows "\<exists>m s. validate_feature_selection df input_features target_variable
                 = (False, Some m, Some s) \<and> s \<noteq> []"
  using assms by (auto simp add: validate_feature_selection_def Let_def)

text \<open>
  Claim C2: for every dataset whose selected target column has exactly one unique
  value, the feature/target validation used by the training entry point fails, with a
  non-empty suggestion, before any preprocessing or training.

  The training entry point calls \<^verbatim>\<open>validate_feature_target_selection\<close> of
  \<^verbatim>\<open>utils.py\<close>, which returns no suggestion and never counts the target's values.
  On a frame whose target \<^verbatim>\<open>y\<close> is 0 in every row it answers valid, and the handler
  goes on to preprocess (the session's pipeline then holds the feature names);
  \<^verbatim>\<open>validate_feature_selection\<close> of \<^verbatim>\<open>validation.py\<close> fails on the same
  selection.
\<close>

theorem validate_feature_target_selection_accepts_constant_target:
  "nunique_of frame_constant_target ''y'' = 1
   \<and> validate_feature_target_selection frame_constant_target [''x''] ''y'' = (True, '''')
   \<and> fst (validate_feature_selection frame_constant_target [''x''] ''y'') = False
   \<and> map_option feature_names (sessions_one ''session_0'') = Some []
   \<and> map_option feature_names
         (fst (snd (api_train demo_lib sessions_one [frame_constant_target] request_tree))
            ''session_0'') = Some [''x'']"
  by (simp add: validate_feature_selection_def nunique_of_def
      app_defs train_defs metric_defs demo_defs prep_defs sessions_one_def
      frame_constant_target_def request_tree_def config_plain_def new_pipeline_def Let_def)

section \<open>Properties of the split\<close>

lemma bind_exn_Inr_iff: "bind_exn m f = Inr y \<longleftrightarrow> (\<exists>x. m = Inr x \<and> f x = Inr y)"
  by (cases m) (auto simp: bind_exn_def)

lemma count_list_map_inj:
  assumes "inj f"
  shows "count_list (map f xs) (f x) = count_list xs x"
  using assms by (induction xs) (auto dest: injD)

lemma count_list_observed: "count_list (observed xs) v = count_list xs (Some v)"
  by (induction xs rule: observed.induct) auto

lemma set_observed: "set (observed xs) = {v. Some v \<in> set xs}"
  by (induction xs rule: observed.induct) auto

lemma length_remdups_card: "length (remdups xs) = card (set xs)"
  by (simp add: length_remdups_card_conv)

lemma set_value_counts_snd: "set (map snd (value_counts xs)) = count_list xs ` set xs"
  by (auto simp: value_counts_def)

lemma length_value_counts: "length (value_counts xs) = card (set xs)"
  by (simp add: value_counts_def length_remdups_card)

lemma card_set_map_inj: "inj f \<Longrightarrow> card (set (map f xs)) = card (set xs)"
  by (metis card_image inj_on_subset subset_UNIV set_map)

lemma count_image_map_inj:
  "inj f \<Longrightarrow> count_list (map f xs) ` set (map f xs) = count_list xs ` set xs"
  by (simp add: image_image count_list_map_inj)

lemma option_set_split:
  "set xs = Some ` set (observed xs) \<union> (if None \<in> set xs then {None} else {})"
proof -
  have "\<And>x. x \<in> set xs \<Longrightarrow> x = None \<or> (\<exists>v. x = Some v \<and> Some v \<in> set xs)"
    by (metis option.exhaust)
  then show ?thesis
    by (auto simp: set_observed)
qed

lemma card_option_set:
  "card (set xs) = card (set (observed xs)) + (if None \<in> set xs then 1 else 0)"
proof -
  have fin: "finite (Some ` set (observed xs))" by simp
  have "card (Some ` set (observed xs)) = card (set (observed xs))"
    by (simp add: card_image)
  moreover have "None \<notin> Some ` set (observed xs)" by auto
  ultimately show ?thesis
    by (subst option_set_split) (simp add: fin)
qed

lemma np_unique_counts_numeric:
  assumes "is_numeric_dtype y"
  shows "\<exists>counts. np_unique_counts y = Inr counts
           \<and> length counts = card (set (cells y))
           \<and> set counts = count_list (cells y) ` set (cells y)"
proof (cases y)
  case (IntCol xs)
  have inj: "inj IntCell" by (simp add: inj_def)
  show ?thesis
    using IntCol
    by (simp add: set_value_counts_snd length_value_counts card_set_map_inj [OF inj]
        count_image_map_inj [OF inj] del: set_map)
next
  case (BoolCol xs)
  have inj: "inj BoolCell" by (simp add: inj_def)
  show ?thesis
    using BoolCol
    by (simp add: set_value_counts_snd length_value_counts card_set_map_inj [OF inj]
        count_image_map_inj [OF inj] del: set_map)
next
  case (FloatCol xs)
  have inj: "inj FloatCell" by (simp add: inj_def)
  have len: "length (map snd (value_counts (observed xs)) @
          (if None \<in> set xs then [count_list xs None] else [])) = card (set (map FloatCell xs))"
    using card_set_map_inj [OF inj, of xs] card_option_set [of xs]
    by (simp add: length_value_counts del: set_map)
  have "set (map snd (value_counts (observed xs)) @
          (if None \<in> set xs then [count_list xs None] else [])) = count_list xs ` set xs"
  proof (intro set_eqI iffI)
    fix n
    assume "n \<in> set (map snd (value_counts (observed xs)) @
          (if None \<in> set xs then [count_list xs None] else []))"
    then show "n \<in> count_list xs ` set xs"
      by (auto simp: set_value_counts_snd count_list_observed set_observed simp del: set_map
          split: if_splits)
  next
    fix n
    assume "n \<in> count_list xs ` set xs"
    then obtain c where c: "c \<in> set xs" "n = count_list xs c" by auto
    show "n \<in> set (map snd (value_counts (observed xs)) @
          (if None \<in> set xs then [count_list xs None] else []))"
    proof (cases c)
      case None
      with c show ?thesis by simp
    next
      case (Some v)
      with c have "v \<in> set (observed xs)" by (simp add: set_observed)
      with c Some show ?thesis
        by (auto simp: set_value_counts_snd count_list_observed simp del: set_map)
    qed
  qed
  then have st: "set (map snd (value_counts (observed xs)) @
          (if None \<in> set xs then [count_list xs None] else []))
       = count_list (map FloatCell xs) ` set (map FloatCell xs)"
    by (simp add: count_image_map_inj [OF inj] del: set_map)
  show ?thesis
    using FloatCol len st by (simp del: set_map set_append)
next
  case (ObjCol xs)
  with assms show ?thesis by simp
qed




text \<open>
  Claim C3: for every train fraction outside the open interval (0,1) the split fails
  with an \<^verbatim>\<open>InvalidFractionError\<close>, a dedicated error.

  The program defines no such error. With \<^verbatim>\<open>split_ratio = 100\<close>, a train fraction
  of 1, the handler passes \<^verbatim>\<open>test_size = (100 - 100) / 100\<close> and the split raises
  the \<^verbatim>\<open>ValueError\<close> of \<^verbatim>\<open>train_test_split\<close>.
\<close>

theorem split_data_fraction_counterexample:
  "map_option exn_class
     (fst (split_data demo_lib new_pipeline frame_two_class target_balanced ((100 - 100) / 100)
        default_random_state)) = Some ''ValueError''
   \<and> map_option exn_class
     (fst (split_data demo_lib new_pipeline frame_two_class target_balanced ((100 - 100) / 100)
        default_random_state)) \<noteq> Some ''InvalidFractionError''"
  by (simp add: train_defs bind_exn_def value_counts_def target_balanced_def)

text \<open>
  Claim C3, amended: for every train fraction outside (0,1), that is a test fraction
  \<open>1 - train_fraction\<close> outside (0,1), and every numeric target vector, the split
  fails with a \<^verbatim>\<open>ValueError\<close>, the generic error of the libraries, and leaves the
  pipeline as it was: no partition is stored.
\<close>

theorem split_data_invalid_fraction:
  assumes "train_fraction \<le> 0 \<or> 1 \<le> train_fraction" and "is_numeric_dtype y"
  shows "\<exists>msg. split_data L self X y (1 - train_fraction) random_state
           = (Some (Exn ''ValueError'' msg), self)"
proof -
  obtain counts where c: "np_unique_counts y = Inr counts"
    using np_unique_counts_numeric [OF assms(2)] by blast
  show ?thesis
    using assms(1) c
    by (auto simp: split_data_def stratify_param_def train_test_split_def bind_exn_def)
qed

theorem split_data_invalid_fraction_witness:
  "((3 / 2 :: real) \<le> 0 \<or> 1 \<le> (3 / 2 :: real)) \<and> is_numeric_dtype target_balanced
   \<and> (\<exists>msg. split_data demo_lib pipeline_after_split frame_two_class target_balanced (1 - 3 / 2)
               default_random_state = (Some (Exn ''ValueError'' msg), pipeline_after_split))"
proof -
  have f: "(3 / 2 :: real) \<le> 0 \<or> 1 \<le> (3 / 2 :: real)" by simp
  have n: "is_numeric_dtype target_balanced" by (simp add: target_balanced_def)
  from split_data_invalid_fraction [OF f n] f n show ?thesis by blast
qed

section \<open>Properties of training\<close>

text \<open>
  Claim C6: for every \<^verbatim>\<open>model_type\<close> outside linear, decision_tree, random_forest,
  svm, knn and neural_network, \<^verbatim>\<open>train_model\<close> fails with an
  \<^verbatim>\<open>UnknownModelTypeError\<close>, fits nothing and leaves the stored model unchanged.

  The error \<^verbatim>\<open>train_model\<close> raises for \<^verbatim>\<open>xgboost\<close> is a \<^verbatim>\<open>ValueError\<close>; and
  \<^verbatim>\<open>logistic\<close>, which is outside the set the claim lists, is a type the program
  accepts: the call returns a result and stores a model.
\<close>

theorem train_model_unknown_type_counterexample:
  "train_model demo_lib pipeline_after_split ''xgboost'' None
     = (Inl (Exn ''ValueError'' ''Unknown model type: xgboost''), pipeline_after_split)
   \<and> ''ValueError'' \<noteq> ''UnknownModelTypeError''
   \<and> \<not> isl (fst (train_model demo_lib pipeline_after_split ''logistic'' None))
   \<and> model (snd (train_model demo_lib pipeline_after_split ''logistic'' None))
       \<noteq> model pipeline_after_split"
  by (simp add: train_defs metric_defs demo_defs bind_exn_def pipeline_after_split_def
      new_pipeline_def Let_def)

text \<open>
  Claim C6, amended: for every \<^verbatim>\<open>model_type\<close> outside logistic, linear,
  decision_tree, random_forest, svm, knn and neural_network, \<^verbatim>\<open>train_model\<close> fails
  and leaves the pipeline, its stored model included, exactly as it was; the outcome
  does not depend on the library, so nothing is fitted. Once a split with a numeric
  target is stored the error is \<^verbatim>\<open>ValueError('Unknown model type: ...')\<close>; before
  that it is the error of reading the missing training target.
\<close>

theorem train_model_unknown_type:
  assumes "model_type \<notin> set [''logistic'', ''linear'', ''decision_tree'', ''random_forest'',
                              ''svm'', ''knn'', ''neural_network'']"
  shows "train_model L self model_type hp =
           (Inl (case detect_classification self of
                   Inl e \<Rightarrow> e
                 | Inr b \<Rightarrow> Exn ''ValueError'' (''Unknown model type: '' @ model_type)), self)
         \<and> (y_train self = Some ytr \<and> is_numeric_dtype ytr \<longrightarrow>
              train_model L self model_type hp =
                (Inl (Exn ''ValueError'' (''Unknown model type: '' @ model_type)), self))"
proof -
  have mk: "make_model model_type b d = Inl (Exn ''ValueError'' (''Unknown model type: '' @ model_type))"
    for b d
    using assms by (simp add: make_model_def)
  have first: "train_model L self model_type hp =
           (Inl (case detect_classification self of
                   Inl e \<Rightarrow> e
                 | Inr b \<Rightarrow> Exn ''ValueError'' (''Unknown model type: '' @ model_type)), self)"
    by (simp add: train_model_def mk Let_def split: sum.splits)
  have "detect_classification self = Inr (length counts < 50 \<and> \<not> is_floating ytr)"
    if "y_train self = Some ytr" "np_unique_counts ytr = Inr counts" for counts
    using that by (simp add: detect_classification_def bind_exn_def)
  then show ?thesis
    using first np_unique_counts_numeric [of ytr] by auto
qed

theorem train_model_unknown_type_witness:
  "''xgboost'' \<notin> set [''logistic'', ''linear'', ''decision_tree'', ''random_forest'',
                         ''svm'', ''knn'', ''neural_network'']
   \<and> y_train pipeline_after_split = Some (IntCol [0, 1]) \<and> is_numeric_dtype (IntCol [0, 1])
   \<and> train_model demo_lib pipeline_after_split ''xgboost'' None
       = (Inl (Exn ''ValueError'' (''Unknown model type: '' @ ''xgboost'')), pipeline_after_split)"
proof -
  have m: "''xgboost'' \<notin> set [''logistic'', ''linear'', ''decision_tree'', ''random_forest'',
                         ''svm'', ''knn'', ''neural_network'']"
    by simp
  have y: "y_train pipeline_after_split = Some (IntCol [0, 1])"
    by (simp add: pipeline_after_split_def new_pipeline_def)
  from train_model_unknown_type [OF m, of demo_lib pipeline_after_split None "IntCol [0, 1]",
      THEN conjunct2] y m
  show ?thesis by simp
qed

section \<open>Properties of the metrics\<close>

lemma sum_indicator:
  assumes "distinct ls"
  shows "sum_list (map (\<lambda>p. if y = p then 1 else 0) ls) = (if y \<in> set ls then 1 else (0::nat))"
  using assms by (induction ls) auto

lemma row_sum_pairs:
  assumes "distinct ls"
  shows "sum_list (map (\<lambda>p. length (filter (\<lambda>(a, b). a = t \<and> b = p) zs)) ls)
         = length (filter (\<lambda>(a, b). a = t \<and> b \<in> set ls) zs)"
proof (induction zs)
  case Nil
  then show ?case by simp
next
  case (Cons z zs)
  obtain a b where z: "z = (a, b)" by (cases z)
  have "sum_list (map (\<lambda>p. length (filter (\<lambda>(a, b). a = t \<and> b = p) (z # zs))) ls)
      = sum_list (map (\<lambda>p. (if a = t \<and> b = p then 1 else 0)
                           + length (filter (\<lambda>(a, b). a = t \<and> b = p) zs)) ls)"
    by (rule arg_cong [where f = sum_list]) (simp add: z)
  also have "\<dots> = sum_list (map (\<lambda>p. if a = t \<and> b = p then 1 else 0) ls)
                 + sum_list (map (\<lambda>p. length (filter (\<lambda>(a, b). a = t \<and> b = p) zs)) ls)"
    by (simp add: sum_list_addf)
  also have "sum_list (map (\<lambda>p. if a = t \<and> b = p then 1 else 0) ls)
             = (if a = t \<and> b \<in> set ls then 1 else (0::nat))"
    using sum_indicator [OF assms, of b] by (cases "a = t") simp_all
  finally show ?case using Cons.IH by (simp add: z)
qed

lemma count_pairs:
  assumes "length yt = length yp" "set yp \<subseteq> S"
  shows "length (filter (\<lambda>(a, b). a = t \<and> b \<in> S) (zip yt yp)) = count_list yt t"
  using assms by (induction yt yp rule: list_induct2) auto

lemma cm_matrix_spec:
  assumes "length a = length b"
  shows "cm_of_labels a b (cm_matrix a b)"
proof -
  define ls where "ls = sort (remdups (a @ b))"
  have d: "distinct ls" and s: "set ls = set a \<union> set b"
    by (simp_all add: ls_def)
  have row: "sum_list (map (cm_count a b t) ls) = count_list a t" for t
  proof -
    have "sum_list (map (cm_count a b t) ls)
          = length (filter (\<lambda>(x, y). x = t \<and> y \<in> set ls) (zip a b))"
      unfolding cm_count_def by (rule row_sum_pairs [OF d])
    also have "\<dots> = count_list a t"
      by (rule count_pairs [OF assms]) (simp add: s)
    finally show ?thesis .
  qed
  show ?thesis
    unfolding cm_of_labels_def cm_matrix_def cm_labels_def Let_def ls_def [symmetric]
    by (simp add: row) (simp add: cm_count_def)
qed

lemma num_labels_length: "num_labels c = Some a \<Longrightarrow> length a = col_len c"
proof (cases c)
  case (FloatCol xs)
  assume "num_labels c = Some a"
  with FloatCol have "None \<notin> set xs" "a = observed xs" by (auto split: if_splits)
  moreover have "None \<notin> set ys \<Longrightarrow> length (observed ys) = length ys" for ys :: "real option list"
    by (induction ys rule: observed.induct) auto
  ultimately show ?thesis using FloatCol by simp
qed auto

lemma str_labels_length: "str_labels c = Some a \<Longrightarrow> length a = col_len c"
proof (cases c)
  case (ObjCol xs)
  assume "str_labels c = Some a"
  with ObjCol have "None \<notin> set xs" "a = observed xs" by (auto split: if_splits)
  moreover have "None \<notin> set ys \<Longrightarrow> length (observed ys) = length ys" for ys :: "string option list"
    by (induction ys rule: observed.induct) auto
  ultimately show ?thesis using ObjCol by simp
qed auto

lemma confusion_matrix_spec:
  assumes "confusion_matrix y_true y_pred = Inr cm"
  shows "(\<exists>a b. num_labels y_true = Some a \<and> num_labels y_pred = Some b
                \<and> length a = length b \<and> cm_of_labels a b cm)
       \<or> (\<exists>a b. str_labels y_true = Some a \<and> str_labels y_pred = Some b
                \<and> length a = length b \<and> cm_of_labels a b cm)"
proof -
  from assms have len: "col_len y_true = col_len y_pred"
    by (auto simp: confusion_matrix_def split: if_splits)
  show ?thesis
  proof (cases "\<exists>a b. num_labels y_true = Some a \<and> num_labels y_pred = Some b")
    case True
    then obtain a b where ab: "num_labels y_true = Some a" "num_labels y_pred = Some b" by blast
    with assms len have cm: "cm = cm_matrix a b" by (simp add: confusion_matrix_def)
    have "length a = length b"
      using num_labels_length [OF ab(1)] num_labels_length [OF ab(2)] len by simp
    with cm ab show ?thesis using cm_matrix_spec by blast
  next
    case False
    with assms len obtain a b where
      ab: "str_labels y_true = Some a" "str_labels y_pred = Some b" and cm: "cm = cm_matrix a b"
      by (auto simp: confusion_matrix_def split: option.splits)
    have "length a = length b"
      using str_labels_length [OF ab(1)] str_labels_length [OF ab(2)] len by simp
    with cm ab show ?thesis using cm_matrix_spec by blast
  qed
qed

lemma required_Inr_iff: "required v = Inr a \<longleftrightarrow> v = Some a"
  by (cases v) (auto simp: required_def)

text \<open>
  Claim C4: for every classification result, the confusion matrix is square with size
  the number of distinct test classes, row = true class and column = predicted class,
  the classes in order of first appearance, and each row sums to that class's count in
  the test set.

  With test targets 1, 0, 0 predicted exactly, the class that appears first is 1, with
  one sample, yet the first row of the reported matrix is the row of class 0 and sums
  to 2. With test targets 0, 0 predicted as 0, 1 there is one distinct test class, yet
  the reported matrix is 2 by 2.
\<close>

theorem confusion_matrix_order_counterexample:
  "map_sum id res_confusion_matrix
     (calculate_metrics demo_lib pipeline_after_split (IntCol [0, 1]) (IntCol [1, 0, 0]) True)
     = Inr [[2, 0], [0, 1]]
   \<and> y_test pipeline_after_split = Some (IntCol [1, 0, 0])
   \<and> sum_list ([[2, 0], [0, 1]] ! 0) \<noteq> count_list [1, 0, 0] (1 :: int)
   \<and> map_sum id res_confusion_matrix
     (calculate_metrics demo_lib (pipeline_after_split\<lparr>y_test := Some (IntCol [0, 0])\<rparr>)
        (IntCol [0, 1]) (IntCol [0, 1]) True)
     = Inr [[1, 1], [0, 0]]
   \<and> length [[1, 1], [0, 0 :: nat]] \<noteq> length (remdups [0, 0 :: int])"
  by (simp add: metric_defs demo_defs bind_exn_def pipeline_after_split_def new_pipeline_def Let_def)

text \<open>
  Claim C4, amended: for every classification result, the reported confusion matrix is
  square, its size the number of distinct labels that occur among the test targets or
  the test predictions; row = true class and column = predicted class, the labels in
  ascending order; each row sums to that label's count in the test set (0 for a label
  that only the predictions contain).
\<close>

theorem classification_confusion_matrix:
  assumes "calculate_metrics L self y_train_pred y_pred True = Inr res"
  shows "\<exists>yte. y_test self = Some yte \<and>
     ((\<exists>a b. num_labels yte = Some a \<and> num_labels y_pred = Some b
              \<and> length a = length b \<and> cm_of_labels a b (res_confusion_matrix res))
      \<or> (\<exists>a b. str_labels yte = Some a \<and> str_labels y_pred = Some b
              \<and> length a = length b \<and> cm_of_labels a b (res_confusion_matrix res)))"
proof -
  from assms obtain yte cm where
    yte: "y_test self = Some yte" and cm: "confusion_matrix yte y_pred = Inr cm"
    and res: "res_confusion_matrix res = cm"
    by (auto simp: calculate_metrics_def classification_scores_def bind_exn_Inr_iff
        required_Inr_iff Let_def)
  from confusion_matrix_spec [OF cm] yte res show ?thesis by simp
qed

theorem classification_confusion_matrix_witness:
  "\<exists>res. calculate_metrics demo_lib pipeline_after_split (IntCol [0, 1]) (IntCol [1, 0, 0]) True
           = Inr res
         \<and> res_confusion_matrix res = [[2, 0], [0, 1]]
         \<and> cm_of_labels [1, 0, 0 :: real] [1, 0, 0] (res_confusion_matrix res)"
proof -
  have "\<exists>res. calculate_metrics demo_lib pipeline_after_split (IntCol [0, 1]) (IntCol [1, 0, 0]) True
           = Inr res \<and> res_confusion_matrix res = [[2, 0], [0, 1]]"
    by (simp add: metric_defs demo_defs bind_exn_def pipeline_after_split_def new_pipeline_def
        Let_def)
  then obtain res where
    r: "calculate_metrics demo_lib pipeline_after_split (IntCol [0, 1]) (IntCol [1, 0, 0]) True
          = Inr res"
    and cm: "res_confusion_matrix res = [[2, 0], [0, 1]]"
    by blast
  have y: "y_test pipeline_after_split = Some (IntCol [1, 0, 0])"
    by (simp add: pipeline_after_split_def new_pipeline_def)
  from classification_confusion_matrix [OF r] y
  have "cm_of_labels [1, 0, 0 :: real] [1, 0, 0] (res_confusion_matrix res)"
    by auto
  with r cm show ?thesis by blast
qed

text \<open>
  Claim C5: for every regression result, the test metrics satisfy
  accuracy = max(0, test R2), hence never negative, precision = test R2,
  recall = 1 - test MAE / (standard deviation of the true test values + 1e-10),
  f1 = test R2, and the confusion matrix is the fixed 2 by 2 zero matrix.

  R2, MAE and the standard deviation are the values the library routines return on the
  test targets and the test predictions.
\<close>

theorem regression_test_metrics:
  assumes "calculate_metrics L self y_train_pred y_pred False = Inr res"
  shows "\<exists>yte r2 mae std.
     y_test self = Some yte \<and> r2_score L yte y_pred = Inr r2
     \<and> mean_absolute_error L yte y_pred = Inr mae \<and> np_std L yte = Inr std
     \<and> tm_accuracy (res_test_metrics res) = max 0 r2
     \<and> 0 \<le> tm_accuracy (res_test_metrics res)
     \<and> tm_precision (res_test_metrics res) = r2
     \<and> tm_recall (res_test_metrics res) = 1 - mae / (std + 1 / 10 ^ 10)
     \<and> tm_f1_score (res_test_metrics res) = r2
     \<and> res_confusion_matrix res = [[0, 0], [0, 0]]"
  using assms
  by (auto simp: calculate_metrics_def regression_scores_def bind_exn_Inr_iff required_Inr_iff Let_def)

theorem regression_test_metrics_witness:
  "\<exists>res. calculate_metrics demo_lib pipeline_after_split (IntCol [0, 0]) (IntCol [3, 0, 0]) False
           = Inr res
         \<and> tm_accuracy (res_test_metrics res) = 0
         \<and> tm_precision (res_test_metrics res) = - 1 / 3
         \<and> tm_recall (res_test_metrics res) = 1 - (2 / 3) / (1 + 1 / 10 ^ 10)
         \<and> tm_f1_score (res_test_metrics res) = - 1 / 3
         \<and> res_confusion_matrix res = [[0, 0], [0, 0]]"
proof -
  have "\<exists>res. calculate_metrics demo_lib pipeline_after_split (IntCol [0, 0]) (IntCol [3, 0, 0]) False
           = Inr res"
    by (simp add: metric_defs demo_defs bind_exn_def np_mean_def pipeline_after_split_def
        new_pipeline_def Let_def)
  then obtain res where
    r: "calculate_metrics demo_lib pipeline_after_split (IntCol [0, 0]) (IntCol [3, 0, 0]) False
          = Inr res"
    by blast
  have y: "y_test pipeline_after_split = Some (IntCol [1, 0, 0])"
    by (simp add: pipeline_after_split_def new_pipeline_def)
  have r2: "r2_score demo_lib (IntCol [1, 0, 0]) (IntCol [3, 0, 0]) = Inr (- 1 / 3)"
    and mae: "mean_absolute_error demo_lib (IntCol [1, 0, 0]) (IntCol [3, 0, 0]) = Inr (2 / 3)"
    and std: "np_std demo_lib (IntCol [1, 0, 0]) = Inr 1"
    by (simp_all add: demo_defs bind_exn_def np_mean_def)
  from regression_test_metrics [OF r] y r2 mae std
  have "tm_accuracy (res_test_metrics res) = 0
         \<and> tm_precision (res_test_metrics res) = - 1 / 3
         \<and> tm_recall (res_test_metrics res) = 1 - (2 / 3) / (1 + 1 / 10 ^ 10)
         \<and> tm_f1_score (res_test_metrics res) = - 1 / 3
         \<and> res_confusion_matrix res = [[0, 0], [0, 0]]"
    by auto
  with r show ?thesis by blast
qed

section \<open>Properties of preprocessing\<close>

subsection \<open>Frame access and the imputation loop\<close>












lemma impute_missing_heap:
  assumes "impute_missing cfg h X = (e, h')"
  shows "length h' = length h \<and> (\<forall>i. i \<noteq> X \<longrightarrow> h' ! i = h ! i)"
  using assms by (auto simp: impute_missing_def split: if_splits prod.splits)

subsection \<open>The encoding loop\<close>

lemma setitem_keeps_clean:
  assumes "setitem X col v = Inr X'" "\<not> isna_any v" "\<not> df_isna_any X"
  shows "\<not> df_isna_any X'"
  using assms
  by (fastforce simp: setitem_def df_isna_any_def list_ex_iff split: if_splits)

lemma encode_step_clean:
  assumes "encode_step col (X, encs) = Inr (X', encs')" "\<not> df_isna_any X"
  shows "\<not> df_isna_any X'"
proof -
  from assms(1) obtain c where c: "getitem X col = Inr c"
    by (auto simp: encode_step_def bind_exn_Inr_iff)
  show ?thesis
  proof (cases c)
    case (ObjCol xs)
    with assms(1) c obtain codes where "setitem X col (IntCol codes) = Inr X'"
      by (auto simp: encode_step_def bind_exn_Inr_iff split: prod.splits)
    from setitem_keeps_clean [OF this _ assms(2)] show ?thesis
      by (simp add: isna_any_def list_ex_iff)
  qed (use assms c in \<open>auto simp: encode_step_def bind_exn_def\<close>)
qed

lemma encode_loop_clean:
  assumes "for_columns encode_step cols (X, encs) = (e, X', encs')" "\<not> df_isna_any X"
  shows "\<not> df_isna_any X'"
  using assms
proof (induction cols arbitrary: X encs)
  case Nil
  then show ?case by simp
next
  case (Cons col cols)
  show ?case
  proof (cases "encode_step col (X, encs)")
    case (Inl a)
    with Cons.prems show ?thesis by simp
  next
    case (Inr s)
    obtain X1 encs1 where s: "s = (X1, encs1)" by (cases s)
    from Inr s Cons.prems(1) have rest: "for_columns encode_step cols (X1, encs1) = (e, X', encs')"
      by simp
    from encode_step_clean [OF Inr [unfolded s] Cons.prems(2)]
    show ?thesis using Cons.IH [OF rest] by simp
  qed
qed

lemma encode_features_facts:
  assumes "encode_features cfg self h X = (e, self', h')"
  shows "length h' = length h \<and> (\<forall>i. i \<noteq> X \<longrightarrow> h' ! i = h ! i)
     \<and> original_df self' = original_df self
     \<and> (X < length h \<longrightarrow> \<not> df_isna_any (h ! X) \<longrightarrow> \<not> df_isna_any (h' ! X))"
  using assms encode_loop_clean
  by (auto simp: encode_features_def split: if_splits prod.splits)

subsection \<open>Scaling\<close>

lemma observed_nil_no_None: "observed xs = [] \<Longrightarrow> None \<notin> set xs \<Longrightarrow> xs = []"
  by (induction xs rule: observed.induct) auto

lemma to_float_clean:
  assumes "to_float c = Inr xs" "\<not> isna_any c"
  shows "None \<notin> set xs"
  using assms
  by (cases c) (auto simp: isna_any_def list_ex_iff split: if_splits dest: observed_nil_no_None)

lemma scaler_transform_clean:
  assumes "None \<notin> set xs"
  shows "None \<notin> set (scaler_transform (scaler_fit k xs) xs)"
proof (cases "observed xs")
  case Nil
  with assms have "xs = []" by (simp add: observed_nil_no_None)
  then show ?thesis by (simp add: scaler_transform_def scaler_fit_def)
next
  case (Cons v vs)
  then obtain a b where "scaler_fit k xs = Some (a, b)"
    by (cases k) (auto simp: scaler_fit_def Let_def)
  with assms show ?thesis by (auto simp: scaler_transform_def)
qed

lemma map_exn_Inr:
  assumes "map_exn f xs = Inr ys"
  shows "list_all2 (\<lambda>x y. f x = Inr y) xs ys"
  using assms
  by (induction xs arbitrary: ys) (auto split: sum.splits)

lemma map2_map_same: "map2 f (map g xs) xs = map (\<lambda>x. f (g x) x) xs"
  by (induction xs) auto

lemma fit_transform_clean:
  assumes "fit_transform k X = Inr (ps, cols)" "\<not> df_isna_any X"
  shows "list_all (\<lambda>xs. None \<notin> set xs) cols"
proof -
  from assms(1) obtain fs where fs: "map_exn to_float (map snd (columns X)) = Inr fs"
    and cols: "cols = map2 scaler_transform (map (scaler_fit k) fs) fs"
    by (auto simp: fit_transform_def bind_exn_Inr_iff Let_def split: if_splits)
  have "list_all2 (\<lambda>c xs. to_float c = Inr xs) (map snd (columns X)) fs"
    by (rule map_exn_Inr [OF fs])
  moreover have "\<forall>c \<in> set (map snd (columns X)). \<not> isna_any c"
    using assms(2) by (simp add: df_isna_any_def list_ex_iff)
  ultimately have "\<forall>xs \<in> set fs. None \<notin> set xs"
    by (induction rule: list_all2_induct) (auto dest: to_float_clean)
  then show ?thesis
    by (simp add: cols map2_map_same list_all_iff scaler_transform_clean)
qed

lemma new_frame_clean:
  assumes "list_all (\<lambda>xs. None \<notin> set xs) cols"
  shows "\<not> df_isna_any \<lparr>index_len = n, columns = zip ls (map FloatCol cols)\<rparr>"
proof -
  have "isna_any c \<Longrightarrow> c \<in> set (map snd (zip ls (map FloatCol cols))) \<Longrightarrow> False" for c
  proof -
    assume a: "isna_any c" and "c \<in> set (map snd (zip ls (map FloatCol cols)))"
    then obtain l where "(l, c) \<in> set (zip ls (map FloatCol cols))" by auto
    then have "c \<in> set (map FloatCol cols)" by (rule set_zip_rightD)
    then obtain xs where "xs \<in> set cols" "c = FloatCol xs" by auto
    with assms a show False by (auto simp: list_all_iff isna_any_def list_ex_iff)
  qed
  then show ?thesis by (auto simp: df_isna_any_def list_ex_iff simp del: set_map)
qed

lemma scale_with_facts:
  assumes "scale_with k self h X = (r, self', h')"
  shows "take (length h) h' = h \<and> original_df self' = original_df self
     \<and> label_encoders self' = label_encoders self
     \<and> (\<forall>X'. r = Inr X' \<longrightarrow> X' < length h' \<and> (\<not> df_isna_any (h ! X) \<longrightarrow> \<not> df_isna_any (h' ! X')))"
  using assms
  by (auto simp: scale_with_def alloc_def nth_append split: sum.splits prod.splits
      dest!: fit_transform_clean intro: new_frame_clean [THEN notE])

lemma scale_features_facts:
  assumes "scale_features cfg self h X = (r, self', h')" "X < length h"
  shows "take (length h) h' = h \<and> original_df self' = original_df self
     \<and> label_encoders self' = label_encoders self
     \<and> (\<forall>X'. r = Inr X' \<longrightarrow> X' < length h' \<and> (\<not> df_isna_any (h ! X) \<longrightarrow> \<not> df_isna_any (h' ! X')))"
proof (cases "standardization cfg \<or> normalization cfg")
  case True
  then obtain k where "scale_with k self h X = (r, self', h')"
    using assms(1) by (auto simp: scale_features_def split: if_splits)
  from scale_with_facts [OF this] show ?thesis .
next
  case False
  with assms show ?thesis by (auto simp: scale_features_def)
qed

lemma encode_target_facts:
  assumes "encode_target self t y = (r, self')"
  shows "original_df self' = original_df self"
  using assms by (auto simp: encode_target_def split: selection.splits column.splits prod.splits)

subsection \<open>The store across a call\<close>

lemma take_prefix_update:
  assumes "length h' = length h" "\<forall>i. i \<noteq> X \<longrightarrow> h' ! i = h ! i" "n \<le> X"
  shows "take n h' = take n h"
  using assms by (auto simp: list_eq_iff_nth_eq)

text \<open>
  Every frame that was in the store before the call is there unchanged after it,
  whether the call returns or raises, and the pipeline still refers to the same frame.
\<close>

lemma preprocess_data_frame_untouched:
  assumes "preprocess_data self h df_ref input_features target_variable cfg = (res, self', h')"
  shows "take (length h) h' = h \<and> original_df self' = original_df self"
proof (cases "length h \<le> df_ref")
  case True
  with assms show ?thesis by (simp add: preprocess_data_def)
next
  case False
  define h1 where "h1 = h @ [h ! df_ref]"
  show ?thesis
  proof (cases "select_columns (h ! df_ref) input_features")
    case (Inl e)
    with assms False show ?thesis
      by (auto simp: preprocess_data_def alloc_def nth_append)
  next
    case (Inr sel)
    define h3 where "h3 = h @ [h ! df_ref, sel, sel]"
    define X where "X = length h + 2"
    have X: "X < length h3" "h3 ! X = sel" "h3 ! length h = h ! df_ref" "length h \<le> X"
      by (simp_all add: h3_def X_def nth_append)
    show ?thesis
    proof (cases "select (h ! df_ref) target_variable")
      case (Inl e)
      with assms False Inr show ?thesis
        by (auto simp: preprocess_data_def alloc_def nth_append)
    next
      case y: (Inr y)
      define self1 where "self1 = self\<lparr>feature_names := input_features,
                                 target_name := Some target_variable\<rparr>"
      obtain e4 h4 where i: "impute_missing cfg h3 X = (e4, h4)" by (cases "impute_missing cfg h3 X")
      obtain e5 self2 h5 where e: "encode_features cfg self1 h4 X = (e5, self2, h5)"
        by (cases "encode_features cfg self1 h4 X") auto
      obtain r3 self3 where t: "encode_target self2 target_variable y = (r3, self3)"
        by (cases "encode_target self2 target_variable y")
      obtain r6 self4 h6 where s: "scale_features cfg self3 h5 X = (r6, self4, h6)"
        by (cases "scale_features cfg self3 h5 X") auto
      note hi = impute_missing_heap [OF i]
      note he = encode_features_facts [OF e]
      have X5: "X < length h5" using hi he X by simp
      note hs = scale_features_facts [OF s X5]
      have t3: "take (length h) h3 = h" by (simp add: h3_def)
      have t4: "take (length h) h4 = h"
        using take_prefix_update [of h4 h3 X "length h"] hi X t3 by simp
      have t5: "take (length h) h5 = h"
        using take_prefix_update [of h5 h4 X "length h"] he X t4 by simp
      have "take (length h) (take (length h5) h6) = take (length h) h5"
        using hs by simp
      then have t6: "take (length h) h6 = h"
        using t5 hi he X by (simp add: h3_def min_def)
      have o1: "original_df self1 = original_df self" by (simp add: self1_def)
      have o2: "original_df self2 = original_df self" using he o1 by simp
      have o3: "original_df self3 = original_df self" using encode_target_facts [OF t] o2 by simp
      have o4: "original_df self4 = original_df self" using hs o3 by simp
      have unfold: "preprocess_data self h df_ref input_features target_variable cfg =
          (case e4 of Some e \<Rightarrow> (Inl e, self1, h4)
           | None \<Rightarrow> (case e5 of Some e \<Rightarrow> (Inl e, self2, h5)
               | None \<Rightarrow> (case r3 of Inl e \<Rightarrow> (Inl e, self3, h5)
                   | Inr y' \<Rightarrow> (case r6 of Inl e \<Rightarrow> (Inl e, self4, h6)
                              | Inr X' \<Rightarrow> (Inr (X', y'), self4, h6)))))"
        using False Inr y i e t s
        by (simp add: preprocess_data_def alloc_def nth_append Let_def h3_def X_def self1_def
            split: option.splits sum.splits)
      show ?thesis
        using assms unfold t4 t5 t6 o1 o2 o3 o4
        by (auto split: option.splits sum.splits)
    qed
  qed
qed

subsection \<open>A successful call, step by step\<close>

lemma preprocess_data_success:
  assumes "preprocess_data self h r fs t cfg = (Inr (X', y'), self', h')"
  obtains sel y h4 self2 h5 self3 where
    "r < length h" "select_columns (h ! r) fs = Inr sel" "select (h ! r) t = Inr y"
    "impute_missing cfg (h @ [h ! r, sel, sel]) (length h + 2) = (None, h4)"
    "encode_features cfg (self\<lparr>feature_names := fs, target_name := Some t\<rparr>) h4 (length h + 2)
       = (None, self2, h5)"
    "encode_target self2 t y = (Inr y', self3)"
    "scale_features cfg self3 h5 (length h + 2) = (Inr X', self', h')"
proof -
  from assms have r: "r < length h"
    by (auto simp: preprocess_data_def split: if_splits)
  from assms r obtain sel where sel: "select_columns (h ! r) fs = Inr sel"
    by (cases "select_columns (h ! r) fs") (auto simp: preprocess_data_def alloc_def nth_append)
  from assms r sel obtain y where y: "select (h ! r) t = Inr y"
    by (cases "select (h ! r) t") (auto simp: preprocess_data_def alloc_def nth_append)
  define h3 where "h3 = h @ [h ! r, sel, sel]"
  define X where "X = length h + 2"
  define self1 where "self1 = self\<lparr>feature_names := fs, target_name := Some t\<rparr>"
  obtain e4 h4 where i: "impute_missing cfg h3 X = (e4, h4)" by (cases "impute_missing cfg h3 X")
  obtain e5 self2 h5 where e: "encode_features cfg self1 h4 X = (e5, self2, h5)"
    by (cases "encode_features cfg self1 h4 X") auto
  obtain r3 self3 where t: "encode_target self2 t y = (r3, self3)"
    by (cases "encode_target self2 t y")
  obtain r6 self4 h6 where s: "scale_features cfg self3 h5 X = (r6, self4, h6)"
    by (cases "scale_features cfg self3 h5 X") auto
  have unfold: "preprocess_data self h r fs t cfg =
      (case e4 of Some e \<Rightarrow> (Inl e, self1, h4)
       | None \<Rightarrow> (case e5 of Some e \<Rightarrow> (Inl e, self2, h5)
           | None \<Rightarrow> (case r3 of Inl e \<Rightarrow> (Inl e, self3, h5)
               | Inr y2 \<Rightarrow> (case r6 of Inl e \<Rightarrow> (Inl e, self4, h6)
                          | Inr X' \<Rightarrow> (Inr (X', y2), self4, h6)))))"
    using r sel y i e t s
    by (simp add: preprocess_data_def alloc_def nth_append Let_def h3_def X_def self1_def
        split: option.splits sum.splits)
  from assms unfold have "e4 = None" "e5 = None" "r3 = Inr y'" "r6 = Inr X'" "self4 = self'" "h6 = h'"
    by (auto split: option.splits sum.splits)
  with i e t s show ?thesis
    using that [OF r sel y] by (simp add: h3_def X_def self1_def)
qed

text \<open>
  How a column with missing cells is filled depends on its dtype: an object column by
  its most frequent observed value whatever the configured strategy, a numeric column
  by the configured strategy.
\<close>

lemma impute_step_object_column:
  assumes "getitem X col = Inr (ObjCol xs)" "None \<in> set xs" "observed xs \<noteq> []"
  shows "impute_step strategy col X
         = setitem X col (ObjCol (fill_na (most_frequent (observed xs)) xs))"
  using assms
  by (simp add: impute_step_def bind_exn_def isna_any_def list_ex_iff simple_imputer_def)

lemma impute_step_numeric_column:
  assumes "getitem X col = Inr (FloatCol xs)" "None \<in> set xs"
  shows "impute_step strategy col X
         = bind_exn (simple_imputer strategy (FloatCol xs)) (setitem X col)"
  using assms
  by (simp add: impute_step_def bind_exn_def isna_any_def list_ex_iff)

text \<open>The target vector that preprocessing returns is numeric.\<close>

lemma preprocess_data_target_numeric:
  assumes "preprocess_data self h df_ref input_features target_variable cfg = (Inr (X, y), self', h')"
  shows "is_numeric_dtype y"
proof -
  from assms obtain self2 y0 self3 where "encode_target self2 target_variable y0 = (Inr y, self3)"
    by (rule preprocess_data_success)
  then show ?thesis
    by (auto simp: encode_target_def split: selection.splits column.splits prod.splits)
qed



lemma index_of_nth: "x \<in> set ys \<Longrightarrow> index_of ys x < length ys \<and> ys ! index_of ys x = x"
  by (induction ys) auto

lemma le_fit_transform_decodes:
  assumes "le_fit_transform xs = (classes, codes)"
  shows "classes = sort (remdups xs) \<and> map (\<lambda>c. classes ! nat c) codes = xs
         \<and> list_all (\<lambda>c. 0 \<le> c \<and> nat c < length classes) codes"
proof -
  from assms have c: "classes = sort (remdups xs)"
    and k: "codes = map (\<lambda>s. int (index_of classes s)) xs"
    by (auto simp: le_fit_transform_def Let_def)
  have "x \<in> set xs \<Longrightarrow> index_of classes x < length classes \<and> classes ! index_of classes x = x" for x
    by (rule index_of_nth) (simp add: c)
  then show ?thesis
    by (auto simp: c [symmetric] k list_all_iff map_idI)
qed

text \<open>
  Claim C9: for every dataset whose target column is non-numeric, preprocessing returns
  an integer-encoded target vector, through an encoder it stores, whether or not
  \<^verbatim>\<open>encode_categories\<close> is set.

  The configuration is arbitrary in the statement. The stored encoder is the sorted
  list of the distinct target values as text; each code is the position of its value
  in that list, so the list decodes the vector.
\<close>

theorem preprocess_data_encodes_object_target:
  assumes "preprocess_data self h df_ref input_features target_variable cfg = (Inr (X, y), self', h')"
    and "getitem (h ! df_ref) target_variable = Inr (ObjCol xs)"
  shows "\<exists>classes codes.
           y = IntCol codes \<and> label_encoders self' target_variable = Some classes
           \<and> classes = sort (remdups (astype_str xs))
           \<and> map (\<lambda>c. classes ! nat c) codes = astype_str xs
           \<and> list_all (\<lambda>c. 0 \<le> c \<and> nat c < length classes) codes"
proof -
  from assms(1) obtain sel y0 h4 self2 h5 self3 where
    y0: "select (h ! df_ref) target_variable = Inr y0" and
    t: "encode_target self2 target_variable y0 = (Inr y, self3)" and
    s: "scale_features cfg self3 h5 (length h + 2) = (Inr X, self', h')" and
    i: "impute_missing cfg (h @ [h ! df_ref, sel, sel]) (length h + 2) = (None, h4)" and
    e: "encode_features cfg (self\<lparr>feature_names := input_features,
          target_name := Some target_variable\<rparr>) h4 (length h + 2) = (None, self2, h5)"
    by (rule preprocess_data_success)
  from y0 assms(2) have y0': "y0 = Series (ObjCol xs)"
    by (auto simp: getitem_def bind_exn_def split: selection.splits)
  obtain classes codes where lf: "le_fit_transform (astype_str xs) = (classes, codes)"
    by (cases "le_fit_transform (astype_str xs)")
  from t y0' lf have y: "y = IntCol codes" and enc: "label_encoders self3 target_variable = Some classes"
    by (auto simp: encode_target_def)
  have "length h + 2 < length h5"
    using impute_missing_heap [OF i] encode_features_facts [OF e] by simp
  from scale_features_facts [OF s this] enc
  have "label_encoders self' target_variable = Some classes" by simp
  with y le_fit_transform_decodes [OF lf] show ?thesis by blast
qed

theorem preprocess_data_encodes_object_target_witness:
  "\<not> encode_categories config_plain
   \<and> getitem ([frame_people] ! 0) ''label''
       = Inr (ObjCol [Some ''yes'', Some ''no'', Some ''yes'', Some ''no''])
   \<and> fst (preprocess_data new_pipeline [frame_people] 0 [''age'', ''city''] ''label'' config_plain)
       = Inr (3, IntCol [1, 0, 1, 0])
   \<and> label_encoders
         (fst (snd (preprocess_data new_pipeline [frame_people] 0 [''age'', ''city''] ''label''
                      config_plain))) ''label''
       = Some [''no'', ''yes'']"
proof -
  have g: "getitem ([frame_people] ! 0) ''label''
       = Inr (ObjCol [Some ''yes'', Some ''no'', Some ''yes'', Some ''no''])"
    by (simp add: getitem_def select_def bind_exn_def frame_people_def)
  have f: "fst (preprocess_data new_pipeline [frame_people] 0 [''age'', ''city''] ''label''
                  config_plain) = Inr (3, IntCol [1, 0, 1, 0])"
    by (simp add: prep_defs frame_people_def config_plain_def new_pipeline_def Let_def)
  then obtain p h' where
    eq: "preprocess_data new_pipeline [frame_people] 0 [''age'', ''city''] ''label'' config_plain
           = (Inr (3, IntCol [1, 0, 1, 0]), p, h')"
    by (metis prod.collapse)
  from preprocess_data_encodes_object_target [OF eq g]
  have "label_encoders p ''label'' = Some [''no'', ''yes'']"
    by (auto simp: astype_str_def)
  moreover have "\<not> encode_categories config_plain" by (simp add: config_plain_def)
  ultimately show ?thesis
    using g f by (simp add: eq)
qed

subsection \<open>The handler\<close>

lemma split_data_original_df:
  "split_data L self X y ts rs = (e, self') \<Longrightarrow> original_df self' = original_df self"
  by (auto simp: split_data_def split: sum.splits)

lemma train_model_original_df:
  "train_model L self mt hp = (r, self') \<Longrightarrow> original_df self' = original_df self"
  by (auto simp: train_model_def Let_def split: sum.splits option.splits)

lemma run_training_frame_untouched:
  assumes "run_training L p h df req = (res, p', h')"
  shows "take (length h) h' = h \<and> original_df p' = original_df p"
proof -
  obtain r1 p1 h1 where pre: "preprocess_data p h df (req_input_features req)
      (req_target_variable req) (req_preprocessing req) = (r1, p1, h1)"
    by (cases "preprocess_data p h df (req_input_features req)
      (req_target_variable req) (req_preprocessing req)") auto
  note f = preprocess_data_frame_untouched [OF pre]
  show ?thesis
  proof (cases r1)
    case (Inl e)
    with assms pre f show ?thesis by (auto simp: run_training_def)
  next
    case (Inr xy)
    obtain X y where xy: "xy = (X, y)" by (cases xy)
    obtain e2 p2 where sp: "split_data L p1 (h1 ! X) y ((100 - req_split_ratio req) / 100)
        default_random_state = (e2, p2)"
      by (cases "split_data L p1 (h1 ! X) y ((100 - req_split_ratio req) / 100)
        default_random_state")
    obtain r3 p3 where tr: "train_model L p2 (req_model_type req) (req_hyperparameters req) = (r3, p3)"
      by (cases "train_model L p2 (req_model_type req) (req_hyperparameters req)")
    note o2 = split_data_original_df [OF sp]
    note o3 = train_model_original_df [OF tr]
    have "h' = h1 \<and> original_df p' = original_df p1"
      using assms pre Inr xy sp tr o2 o3
      by (auto simp: run_training_def Let_def split: option.splits)
    with f show ?thesis by simp
  qed
qed

text \<open>
  Claim C10: \<^verbatim>\<open>preprocess_data\<close> leaves the input dataframe unchanged, working on
  copies only, so the session's stored original dataset is identical before and after
  any preprocessing or training call.

  Frames are objects in a store. After \<^verbatim>\<open>preprocess_data\<close>, and after a whole
  training request, every frame the store held before the call is unchanged, the new
  frames lying behind them, and every session still refers to the frame it referred to:
  a later request trains from the same data.
\<close>

theorem original_dataset_untouched:
  "(preprocess_data self h df_ref input_features target_variable cfg = (res, self', h')
      \<longrightarrow> take (length h) h' = h \<and> original_df self' = original_df self)
   \<and> (api_train L pipelines h req = (resp, pipelines', h'')
      \<longrightarrow> take (length h) h'' = h
          \<and> (\<forall>sid p. pipelines sid = Some p
                \<longrightarrow> (\<exists>p'. pipelines' sid = Some p' \<and> original_df p' = original_df p)))"
proof (intro conjI impI)
  assume "preprocess_data self h df_ref input_features target_variable cfg = (res, self', h')"
  from preprocess_data_frame_untouched [OF this]
  show "take (length h) h' = h" "original_df self' = original_df self" by simp_all
next
  assume a: "api_train L pipelines h req = (resp, pipelines', h'')"
  have "take (length h) h'' = h
     \<and> (\<forall>sid p. pipelines sid = Some p
                \<longrightarrow> (\<exists>p'. pipelines' sid = Some p' \<and> original_df p' = original_df p))"
  proof (cases "\<exists>p df. pipelines (req_session_id req) = Some p \<and> original_df p = Some df
                  \<and> df < length h
                  \<and> fst (validate_feature_target_selection (h ! df) (req_input_features req)
                         (req_target_variable req))")
    case False
    with a have "pipelines' = pipelines \<and> h'' = h"
      by (auto simp: api_train_def split: option.splits if_splits prod.splits bool.splits)
    then show ?thesis by simp
  next
    case True
    then obtain p df where p: "pipelines (req_session_id req) = Some p" "original_df p = Some df"
      "df < length h" and v: "fst (validate_feature_target_selection (h ! df)
         (req_input_features req) (req_target_variable req))"
      by blast
    obtain r p1 h1 where run: "run_training L p h df req = (r, p1, h1)"
      by (cases "run_training L p h df req") auto
    from a p v run have "pipelines' = pipelines(req_session_id req \<mapsto> p1) \<and> h'' = h1"
      by (auto simp: api_train_def split: prod.splits bool.splits sum.splits)
    with run_training_frame_untouched [OF run] p show ?thesis by auto
  qed
  then show "take (length h) h'' = h"
    and "\<forall>sid p. pipelines sid = Some p
                \<longrightarrow> (\<exists>p'. pipelines' sid = Some p' \<and> original_df p' = original_df p)"
    by simp_all
qed

theorem original_dataset_untouched_witness:
  "(\<exists>res p' h'.
      preprocess_data new_pipeline [frame_people] 0 [''age'', ''city''] ''label'' config_impute
        = (Inr res, p', h')
      \<and> length h' = 5 \<and> take (length [frame_people]) h' = [frame_people]
      \<and> original_df p' = original_df new_pipeline)
   \<and> (\<exists>res ps' h''.
      api_train demo_lib sessions_one [frame_two_class] request_tree = (Ok res, ps', h'')
      \<and> length h'' = 4 \<and> take (length [frame_two_class]) h'' = [frame_two_class]
      \<and> (\<exists>p'. ps' ''session_0'' = Some p' \<and> original_df p' = Some 0))"
proof -
  have "\<exists>res. fst (preprocess_data new_pipeline [frame_people] 0 [''age'', ''city''] ''label''
                     config_impute) = Inr res
            \<and> length (snd (snd (preprocess_data new_pipeline [frame_people] 0
                      [''age'', ''city''] ''label'' config_impute))) = 5"
    by (simp add: prep_defs frame_people_def config_impute_def new_pipeline_def Let_def)
  then obtain res p' h' where
    eq: "preprocess_data new_pipeline [frame_people] 0 [''age'', ''city''] ''label'' config_impute
           = (Inr res, p', h')" and len: "length h' = 5"
    by (metis prod.collapse)
  note first = original_dataset_untouched [THEN conjunct1, rule_format, OF eq]
  have "\<exists>res. fst (api_train demo_lib sessions_one [frame_two_class] request_tree) = Ok res
            \<and> length (snd (snd (api_train demo_lib sessions_one [frame_two_class]
                      request_tree))) = 4"
    by (simp add: app_defs train_defs metric_defs demo_defs prep_defs sessions_one_def
        frame_two_class_def request_tree_def config_plain_def new_pipeline_def Let_def)
  then obtain res2 ps' h'' where
    eq2: "api_train demo_lib sessions_one [frame_two_class] request_tree = (Ok res2, ps', h'')"
    and len2: "length h'' = 4"
    by (metis prod.collapse)
  note second = original_dataset_untouched [THEN conjunct2, rule_format, OF eq2]
  have s: "sessions_one ''session_0'' = Some (new_pipeline\<lparr>original_df := Some 0\<rparr>)"
    by (simp add: sessions_one_def)
  from second [THEN conjunct2, rule_format, OF s]
  have "\<exists>p'. ps' ''session_0'' = Some p' \<and> original_df p' = Some 0"
    by simp
  with eq len first eq2 len2 second show ?thesis
    by blast
qed

end
